theory Spec2Isabelle
  imports Complex_Main
begin

section \<open>Connection configurator\<close>

text \<open>
  The \<^verbatim>\<open>Config\<close> struct of the \<^verbatim>\<open>database\<close> package. A \<^verbatim>\<open>time.Duration\<close> is a
  count of nanoseconds; the integer fields are read as mathematical integers, no
  operation here can overflow them.
\<close>

record Config =
  DatabasePath :: string
  MigrationsDir :: string
  MaxOpenConns :: int
  MaxIdleConns :: int
  ConnMaxLifetime :: int
  ConnMaxIdleTime :: int
  BusyTimeout :: int
  WALMode :: bool
  Synchronous :: string
  CacheSize :: int

definition Millisecond :: int where
  "Millisecond = 1000000"

definition Second :: int where
  "Second = 1000 * Millisecond"

definition Minute :: int where
  "Minute = 60 * Second"

text \<open>Go's integer division truncates toward zero.\<close>

definition go_quot :: "int \<Rightarrow> int \<Rightarrow> int" where
  "go_quot a b = sgn a * sgn b * (\<bar>a\<bar> div \<bar>b\<bar>)"

text \<open>The verb \<^verbatim>\<open>%d\<close> of \<^verbatim>\<open>fmt.Sprintf\<close>: decimal digits, a minus sign when negative.\<close>

definition digit_char :: "nat \<Rightarrow> char" where
  "digit_char d = ''0123456789'' ! d"

fun decimal :: "nat \<Rightarrow> string" where
  "decimal n = (if n < 10 then [digit_char n] else decimal (n div 10) @ [digit_char (n mod 10)])"

declare decimal.simps [simp del]

definition sprint_d :: "int \<Rightarrow> string" where
  "sprint_d i = (if i < 0 then CHR ''-'' # decimal (nat (- i)) else decimal (nat i))"

text \<open>
  \<^verbatim>\<open>buildConnectionString\<close>: the local \<^verbatim>\<open>connStr\<close> is extended by four statements in turn,
  three of them guarded.
\<close>

definition buildConnectionString :: "Config \<Rightarrow> string" where
  "buildConnectionString config =
     (let connStr = DatabasePath config @ ''?'';
          connStr = connStr @ ''foreign_keys=1'';
          connStr = (if BusyTimeout config > 0
                     then connStr @ ''&_busy_timeout='' @ sprint_d (go_quot (BusyTimeout config) Millisecond)
                     else connStr);
          connStr = (if WALMode config then connStr @ ''&_journal_mode=WAL'' else connStr);
          connStr = (if Synchronous config \<noteq> '''' then connStr @ ''&_sync='' @ Synchronous config
                     else connStr)
      in connStr)"

text \<open>
  The composition as the specification words it: the file path, then the parameters that
  are present, in the canonical order, joined by \<^verbatim>\<open>&\<close> after a \<^verbatim>\<open>?\<close>.
\<close>

definition tuning_parameters_spec :: "Config \<Rightarrow> string list" where
  "tuning_parameters_spec config =
     [''foreign_keys=1'']
     @ (if BusyTimeout config > 0
        then [''_busy_timeout='' @ decimal (nat (BusyTimeout config div 1000000))] else [])
     @ (if WALMode config then [''_journal_mode=WAL''] else [])
     @ (if Synchronous config = [] then [] else [''_sync='' @ Synchronous config])"

fun join_amp :: "string list \<Rightarrow> string" where
  "join_amp [] = []"
| "join_amp [p] = p"
| "join_amp (p # q # ps) = p @ ''&'' @ join_amp (q # ps)"

definition connection_target_spec :: "Config \<Rightarrow> string" where
  "connection_target_spec config = DatabasePath config @ ''?'' @ join_amp (tuning_parameters_spec config)"

definition empty_Config :: Config where
  "empty_Config = \<lparr>DatabasePath = '''', MigrationsDir = '''', MaxOpenConns = 0, MaxIdleConns = 0,
     ConnMaxLifetime = 0, ConnMaxIdleTime = 0, BusyTimeout = 0, WALMode = False,
     Synchronous = '''', CacheSize = 0\<rparr>"

section \<open>Errors\<close>

text \<open>
  Go error values: the two sentinels of the \<^verbatim>\<open>database\<close> package, \<^verbatim>\<open>sql.ErrNoRows\<close>, an
  error reported by the storage engine or the driver, and the two forms of \<^verbatim>\<open>fmt.Errorf\<close>
  (with and without a wrapped cause). \<^verbatim>\<open>Error\<close> is the method \<^verbatim>\<open>err.Error()\<close>.
\<close>

datatype db_error =
    ErrConversationNotFound
  | ErrRatingNotFound
  | ErrNoRows
  | EngineError string
  | Errorf string
  | Wrapf string db_error

fun Error :: "db_error \<Rightarrow> string" where
  "Error ErrConversationNotFound = ''conversation not found''"
| "Error ErrRatingNotFound = ''rating not found''"
| "Error ErrNoRows = ''sql: no rows in result set''"
| "Error (EngineError m) = m"
| "Error (Errorf m) = m"
| "Error (Wrapf m e) = m @ '': '' @ Error e"

section \<open>Entity store: rows and tables\<close>

text \<open>
  The row types are the structs \<^verbatim>\<open>Conversation\<close>, \<^verbatim>\<open>Message\<close> and \<^verbatim>\<open>Rating\<close>; a nullable
  column (a Go pointer) is an option, a timestamp is a reading of the engine's clock.
\<close>

record Conversation =
  conv_ID :: int
  conv_SessionID :: string
  conv_Title :: "string option"
  conv_CreatedAt :: nat
  conv_UpdatedAt :: nat
  conv_PromptCount :: int
  conv_TotalCharacters :: int
  conv_WorkingDirectory :: "string option"
  conv_TranscriptPath :: "string option"

record Message =
  msg_ID :: int
  msg_ConversationID :: int
  msg_MessageType :: string
  msg_Content :: string
  msg_CharacterCount :: int
  msg_Timestamp :: nat
  msg_ToolCalls :: "string option"
  msg_ExecutionTime :: "int option"

record Rating =
  rating_ID :: int
  rating_ConversationID :: "int option"
  rating_MessageID :: "int option"
  rating_Rating :: int
  rating_Comment :: "string option"
  rating_CreatedAt :: nat
  rating_UpdatedAt :: nat

text \<open>
  The database behind the handle \<^verbatim>\<open>db.conn\<close>, with the tables of the schema that the
  store's operations read or write (each a list of rows in rowid order), the
  \<^verbatim>\<open>AUTOINCREMENT\<close> counters, the value of \<^verbatim>\<open>CURRENT_TIMESTAMP\<close>, and whether the engine
  accepts a \<^verbatim>\<open>RETURNING\<close> clause. The connection string asks for foreign keys with the
  parameter \<^verbatim>\<open>foreign_keys=1\<close>; the driver reads \<^verbatim>\<open>_foreign_keys\<close> and drops what it does not
  know, so the engine keeps its default: the \<^verbatim>\<open>FOREIGN KEY\<close> clauses of the schema are not
  enforced and their \<^verbatim>\<open>ON DELETE CASCADE\<close> actions do not run. The \<^verbatim>\<open>CHECK\<close> constraints and the
  triggers are in force. Statements fail only on such a constraint; input/output failures
  of the engine are not part of this model.
\<close>

record DB =
  conversations :: "Conversation list"
  messages :: "Message list"
  ratings :: "Rating list"
  conversation_tags :: "(int \<times> int) list"
  seq_conversations :: int
  seq_messages :: int
  seq_ratings :: int
  current_timestamp :: nat
  returning_supported :: bool

definition empty_DB :: DB where
  "empty_DB = \<lparr>conversations = [], messages = [], ratings = [], conversation_tags = [],
     seq_conversations = 0, seq_messages = 0, seq_ratings = 0, current_timestamp = 0,
     returning_supported = True\<rparr>"

text \<open>
  An \<^verbatim>\<open>INTEGER PRIMARY KEY AUTOINCREMENT\<close> column takes one more than the largest rowid the
  table has ever held.
\<close>

definition next_rowid :: "int \<Rightarrow> int list \<Rightarrow> int" where
  "next_rowid seq ids = fold max ids seq + 1"

definition conversation_exists :: "DB \<Rightarrow> int \<Rightarrow> bool" where
  "conversation_exists db cid = (find (\<lambda>c. conv_ID c = cid) (conversations db) \<noteq> None)"

subsection \<open>Triggers of the schema\<close>

text \<open>
  \<^verbatim>\<open>update_conversation_timestamp\<close>, after an update of a conversations row \<^verbatim>\<open>NEW\<close>.
\<close>

definition update_conversation_timestamp :: "DB \<Rightarrow> Conversation \<Rightarrow> DB" where
  "update_conversation_timestamp db NEW =
     db\<lparr>conversations :=
          map (\<lambda>c. if conv_ID c = conv_ID NEW then c\<lparr>conv_UpdatedAt := current_timestamp db\<rparr> else c)
            (conversations db)\<rparr>"

text \<open>
  \<^verbatim>\<open>update_conversation_stats\<close>, after the insert of a messages row \<^verbatim>\<open>NEW\<close>: its
  \<^verbatim>\<open>UPDATE\<close> sets three columns of the rows selected by its \<^verbatim>\<open>WHERE\<close> clause, and the
  timestamp trigger then fires for each row updated.
\<close>

definition stats_SET :: "DB \<Rightarrow> Message \<Rightarrow> Conversation \<Rightarrow> Conversation" where
  "stats_SET db NEW c =
     c\<lparr>conv_PromptCount := conv_PromptCount c + 1,
       conv_TotalCharacters := conv_TotalCharacters c + msg_CharacterCount NEW,
       conv_UpdatedAt := current_timestamp db\<rparr>"

definition update_conversation_stats :: "DB \<Rightarrow> Message \<Rightarrow> DB" where
  "update_conversation_stats db NEW =
     (let affected = filter (\<lambda>c. conv_ID c = msg_ConversationID NEW) (conversations db);
          db1 = db\<lparr>conversations :=
                  map (\<lambda>c. if conv_ID c = msg_ConversationID NEW then stats_SET db NEW c else c)
                    (conversations db)\<rparr>
      in fold (\<lambda>c d. update_conversation_timestamp d (stats_SET db NEW c)) affected db1)"

subsection \<open>Conversations\<close>

text \<open>The \<^verbatim>\<open>INSERT INTO conversations\<close> statement; the counters take their column default 0.\<close>

definition insert_conversation ::
  "DB \<Rightarrow> string \<Rightarrow> string option \<Rightarrow> string option \<Rightarrow> string option \<Rightarrow> db_error + (DB \<times> Conversation)" where
  "insert_conversation db sessionID title workingDir transcriptPath =
     (let rowid = next_rowid (seq_conversations db) (map conv_ID (conversations db));
          row = \<lparr>conv_ID = rowid, conv_SessionID = sessionID, conv_Title = title,
                 conv_CreatedAt = current_timestamp db, conv_UpdatedAt = current_timestamp db,
                 conv_PromptCount = 0, conv_TotalCharacters = 0,
                 conv_WorkingDirectory = workingDir, conv_TranscriptPath = transcriptPath\<rparr>
      in Inr (db\<lparr>conversations := conversations db @ [row], seq_conversations := rowid\<rparr>, row))"

definition GetConversation :: "DB \<Rightarrow> int \<Rightarrow> db_error + Conversation" where
  "GetConversation db cid =
     (case find (\<lambda>c. conv_ID c = cid) (conversations db) of
        None \<Rightarrow> Inl ErrConversationNotFound
      | Some conv \<Rightarrow> Inr conv)"

definition GetConversationBySessionID :: "DB \<Rightarrow> string \<Rightarrow> db_error + Conversation" where
  "GetConversationBySessionID db sessionID =
     (case find (\<lambda>c. conv_SessionID c = sessionID) (conversations db) of
        None \<Rightarrow> Inl ErrConversationNotFound
      | Some conv \<Rightarrow> Inr conv)"

text \<open>
  \<^verbatim>\<open>CreateConversation\<close>: the insert with \<^verbatim>\<open>RETURNING\<close> first; when that query fails, the
  plain insert followed by a fetch of the generated id.
\<close>

definition CreateConversation ::
  "DB \<Rightarrow> string \<Rightarrow> string option \<Rightarrow> string option \<Rightarrow> string option \<Rightarrow> (db_error + Conversation) \<times> DB" where
  "CreateConversation db sessionID title workingDir transcriptPath =
     (case (if returning_supported db
            then insert_conversation db sessionID title workingDir transcriptPath
            else Inl (EngineError ''near RETURNING: syntax error'')) of
        Inr (db', conv) \<Rightarrow> (Inr conv, db')
      | Inl _ \<Rightarrow>
          (case insert_conversation db sessionID title workingDir transcriptPath of
             Inl err \<Rightarrow> (Inl (Wrapf ''failed to insert conversation'' err), db)
           | Inr (db', row) \<Rightarrow> (GetConversation db' (conv_ID row), db')))"

subsection \<open>Messages\<close>

text \<open>
  The \<^verbatim>\<open>INSERT INTO messages\<close> statement: the \<^verbatim>\<open>CHECK\<close> on \<^verbatim>\<open>message_type\<close>, then the row
  and the after-insert trigger, whether or not a conversation with the given id exists. A
  statement that fails leaves the database as it was.
\<close>

definition insert_message ::
  "DB \<Rightarrow> int \<Rightarrow> string \<Rightarrow> string \<Rightarrow> int \<Rightarrow> string option \<Rightarrow> int option \<Rightarrow> db_error + (DB \<times> Message)" where
  "insert_message db conversationID messageType content characterCount toolCalls executionTime =
     (if messageType \<noteq> ''prompt'' \<and> messageType \<noteq> ''response''
      then Inl (EngineError ''CHECK constraint failed: message_type'')
      else
        (let rowid = next_rowid (seq_messages db) (map msg_ID (messages db));
             row = \<lparr>msg_ID = rowid, msg_ConversationID = conversationID,
                    msg_MessageType = messageType, msg_Content = content,
                    msg_CharacterCount = characterCount, msg_Timestamp = current_timestamp db,
                    msg_ToolCalls = toolCalls, msg_ExecutionTime = executionTime\<rparr>;
             db1 = db\<lparr>messages := messages db @ [row], seq_messages := rowid\<rparr>
         in Inr (update_conversation_stats db1 row, row)))"

definition GetMessage :: "DB \<Rightarrow> int \<Rightarrow> db_error + Message" where
  "GetMessage db mid =
     (case find (\<lambda>m. msg_ID m = mid) (messages db) of
        None \<Rightarrow> Inl (Errorf ''message not found'')
      | Some msg \<Rightarrow> Inr msg)"

definition GetMessagesByConversation :: "DB \<Rightarrow> int \<Rightarrow> Message list" where
  "GetMessagesByConversation db conversationID =
     sort_key msg_Timestamp (filter (\<lambda>m. msg_ConversationID m = conversationID) (messages db))"

definition CreateMessage ::
  "DB \<Rightarrow> int \<Rightarrow> string \<Rightarrow> string \<Rightarrow> string option \<Rightarrow> int option \<Rightarrow> (db_error + Message) \<times> DB" where
  "CreateMessage db conversationID messageType content toolCalls executionTime =
     (let characterCount = int (length content) in
      case (if returning_supported db
            then insert_message db conversationID messageType content characterCount toolCalls executionTime
            else Inl (EngineError ''near RETURNING: syntax error'')) of
        Inr (db', msg) \<Rightarrow> (Inr msg, db')
      | Inl _ \<Rightarrow>
          (case insert_message db conversationID messageType content characterCount toolCalls executionTime of
             Inl err \<Rightarrow> (Inl (Wrapf ''failed to insert message'' err), db)
           | Inr (db', row) \<Rightarrow> (GetMessage db' (msg_ID row), db')))"

subsection \<open>Deleting a conversation\<close>

text \<open>
  The two \<^verbatim>\<open>DELETE\<close> statements of \<^verbatim>\<open>DeleteConversation\<close>. Each removes the rows of its own
  table that its \<^verbatim>\<open>WHERE\<close> clause selects and nothing else; the second also gives the
  number of rows it removed.
\<close>

definition delete_messages_where :: "(Message \<Rightarrow> bool) \<Rightarrow> DB \<Rightarrow> DB" where
  "delete_messages_where P db = db\<lparr>messages := filter (\<lambda>m. \<not> P m) (messages db)\<rparr>"

definition delete_conversations_where :: "(Conversation \<Rightarrow> bool) \<Rightarrow> DB \<Rightarrow> DB \<times> nat" where
  "delete_conversations_where P db =
     (db\<lparr>conversations := filter (\<lambda>c. \<not> P c) (conversations db)\<rparr>,
      length (filter P (conversations db)))"

text \<open>
  A transaction of \<^verbatim>\<open>database/sql\<close>: \<^verbatim>\<open>Begin\<close> keeps the committed state, the statements
  run on a working copy, \<^verbatim>\<open>Rollback\<close> returns to the committed state and \<^verbatim>\<open>Commit\<close>
  publishes the working copy.
\<close>

record 'd Tx =
  committed :: 'd
  working :: 'd

definition Begin :: "'d \<Rightarrow> 'd Tx" where
  "Begin d = \<lparr>committed = d, working = d\<rparr>"

definition Rollback :: "'d Tx \<Rightarrow> 'd" where
  "Rollback tx = committed tx"

definition Commit :: "'d Tx \<Rightarrow> 'd" where
  "Commit tx = working tx"

text \<open>
  \<^verbatim>\<open>DeleteConversation\<close>: both \<^verbatim>\<open>DELETE\<close> statements run in one transaction; the deferred
  \<^verbatim>\<open>tx.Rollback()\<close> undoes them on the not-found return, and is without effect after the
  commit.
\<close>

definition DeleteConversation :: "DB \<Rightarrow> int \<Rightarrow> db_error option \<times> DB" where
  "DeleteConversation db cid =
     (let tx = Begin db;
          tx = tx\<lparr>working := delete_messages_where (\<lambda>m. msg_ConversationID m = cid) (working tx)\<rparr>;
          (w, rowsAffected) = delete_conversations_where (\<lambda>c. conv_ID c = cid) (working tx);
          tx = tx\<lparr>working := w\<rparr>
      in if rowsAffected = 0 then (Some ErrConversationNotFound, Rollback tx)
         else (None, Commit tx))"

subsection \<open>Get-or-create in the handlers package\<close>

text \<open>The values of a decoded JSON object, \<^verbatim>\<open>map[string]interface{}\<close>.\<close>

datatype json_value = JString string | JNumber int | JBool bool | JNull

definition ExtractStringFromData :: "(string \<rightharpoonup> json_value) \<Rightarrow> string \<Rightarrow> string option" where
  "ExtractStringFromData data key =
     (case data key of
        Some (JString str) \<Rightarrow> (if str \<noteq> [] then Some str else None)
      | _ \<Rightarrow> None)"

definition GetOrCreateConversation ::
  "DB \<Rightarrow> string \<Rightarrow> (string \<rightharpoonup> json_value) \<Rightarrow> (db_error + int) \<times> DB" where
  "GetOrCreateConversation db sessionID data =
     (case GetConversationBySessionID db sessionID of
        Inr conv \<Rightarrow> (Inr (conv_ID conv), db)
      | Inl err \<Rightarrow>
          if Error err \<noteq> ''conversation not found''
          then (Inl (Wrapf ''failed to lookup conversation by session ID'' err), db)
          else
            (let workingDir = ExtractStringFromData data ''cwd'';
                 transcriptPath = ExtractStringFromData data ''transcript_path''
             in case CreateConversation db sessionID None workingDir transcriptPath of
                  (Inl err, db') \<Rightarrow> (Inl (Wrapf ''failed to create conversation'' err), db')
                | (Inr newConv, db') \<Rightarrow> (Inr (conv_ID newConv), db')))"

subsection \<open>Ratings\<close>

text \<open>
  The \<^verbatim>\<open>INSERT INTO ratings\<close> statement with the two \<^verbatim>\<open>CHECK\<close> constraints of the table:
  the score between 1 and 5, and exactly one of the two parent columns not null. Whether
  the parent row exists is not checked.
\<close>

definition insert_rating ::
  "DB \<Rightarrow> int option \<Rightarrow> int option \<Rightarrow> int \<Rightarrow> string option \<Rightarrow> db_error + (DB \<times> Rating)" where
  "insert_rating db conversationID messageID rating comment =
     (if \<not> (rating \<ge> 1 \<and> rating \<le> 5)
      then Inl (EngineError ''CHECK constraint failed: rating'')
      else if \<not> ((conversationID \<noteq> None \<and> messageID = None) \<or>
                  (conversationID = None \<and> messageID \<noteq> None))
      then Inl (EngineError ''CHECK constraint failed: ratings'')
      else
        (let rowid = next_rowid (seq_ratings db) (map rating_ID (ratings db));
             row = \<lparr>rating_ID = rowid, rating_ConversationID = conversationID,
                    rating_MessageID = messageID, rating_Rating = rating, rating_Comment = comment,
                    rating_CreatedAt = current_timestamp db, rating_UpdatedAt = current_timestamp db\<rparr>
         in Inr (db\<lparr>ratings := ratings db @ [row], seq_ratings := rowid\<rparr>, row)))"

definition GetRating :: "DB \<Rightarrow> int \<Rightarrow> db_error + Rating" where
  "GetRating db rid =
     (case find (\<lambda>r. rating_ID r = rid) (ratings db) of
        None \<Rightarrow> Inl ErrRatingNotFound
      | Some r \<Rightarrow> Inr r)"

text \<open>
  The body shared by \<^verbatim>\<open>CreateConversationRating\<close> and \<^verbatim>\<open>CreateMessageRating\<close>: the
  insert with \<^verbatim>\<open>RETURNING\<close>, then the fallback. Each names one parent column in its
  \<^verbatim>\<open>INSERT\<close>; the other takes its default, \<^verbatim>\<open>NULL\<close>.
\<close>

definition insert_and_fetch_rating ::
  "DB \<Rightarrow> int option \<Rightarrow> int option \<Rightarrow> int \<Rightarrow> string option \<Rightarrow> (db_error + Rating) \<times> DB" where
  "insert_and_fetch_rating db conversationID messageID rating comment =
     (case (if returning_supported db then insert_rating db conversationID messageID rating comment
            else Inl (EngineError ''near RETURNING: syntax error'')) of
        Inr (db', r) \<Rightarrow> (Inr r, db')
      | Inl _ \<Rightarrow>
          (case insert_rating db conversationID messageID rating comment of
             Inl err \<Rightarrow> (Inl (Wrapf ''failed to insert rating'' err), db)
           | Inr (db', row) \<Rightarrow> (GetRating db' (rating_ID row), db')))"

definition CreateConversationRating ::
  "DB \<Rightarrow> int \<Rightarrow> int \<Rightarrow> string option \<Rightarrow> (db_error + Rating) \<times> DB" where
  "CreateConversationRating db conversationID rating comment =
     (if rating < 1 \<or> rating > 5 then (Inl (Errorf ''rating must be between 1 and 5''), db)
      else insert_and_fetch_rating db (Some conversationID) None rating comment)"

definition CreateMessageRating ::
  "DB \<Rightarrow> int \<Rightarrow> int \<Rightarrow> string option \<Rightarrow> (db_error + Rating) \<times> DB" where
  "CreateMessageRating db messageID rating comment =
     (if rating < 1 \<or> rating > 5 then (Inl (Errorf ''rating must be between 1 and 5''), db)
      else insert_and_fetch_rating db None (Some messageID) rating comment)"

definition UpdateRating :: "DB \<Rightarrow> int \<Rightarrow> int \<Rightarrow> string option \<Rightarrow> db_error option \<times> DB" where
  "UpdateRating db rid rating comment =
     (if rating < 1 \<or> rating > 5 then (Some (Errorf ''rating must be between 1 and 5''), db)
      else
        (let rowsAffected = length (filter (\<lambda>r. rating_ID r = rid) (ratings db));
             db' = db\<lparr>ratings :=
                     map (\<lambda>r. if rating_ID r = rid
                               then r\<lparr>rating_Rating := rating, rating_Comment := comment,
                                      rating_UpdatedAt := current_timestamp db\<rparr>
                               else r) (ratings db)\<rparr>
         in if rowsAffected = 0 then (Some ErrRatingNotFound, db') else (None, db')))"

definition DeleteRating :: "DB \<Rightarrow> int \<Rightarrow> db_error option \<times> DB" where
  "DeleteRating db rid =
     (let rowsAffected = length (filter (\<lambda>r. rating_ID r = rid) (ratings db));
          db' = db\<lparr>ratings := filter (\<lambda>r. rating_ID r \<noteq> rid) (ratings db)\<rparr>
      in if rowsAffected = 0 then (Some ErrRatingNotFound, db') else (None, db'))"

text \<open>
  \<^verbatim>\<open>Rating.Validate\<close> of the \<^verbatim>\<open>models\<close> package, whose \<^verbatim>\<open>Rating\<close> struct has the same
  parent and score fields.
\<close>

definition Rating_Validate :: "Rating \<Rightarrow> db_error option" where
  "Rating_Validate r =
     (if rating_ConversationID r = None \<and> rating_MessageID r = None
      then Some (Errorf ''either conversation_id or message_id is required'')
      else if rating_ConversationID r \<noteq> None \<and> rating_MessageID r \<noteq> None
      then Some (Errorf ''cannot specify both conversation_id and message_id'')
      else if rating_Rating r < 1 \<or> rating_Rating r > 5
      then Some (Errorf ''rating must be between 1 and 5'')
      else None)"

text \<open>The exclusivity \<^verbatim>\<open>CHECK\<close> of the ratings table, as a predicate on a stored row.\<close>

definition one_parent :: "Rating \<Rightarrow> bool" where
  "one_parent r =
     ((rating_ConversationID r \<noteq> None \<and> rating_MessageID r = None) \<or>
      (rating_ConversationID r = None \<and> rating_MessageID r \<noteq> None))"

subsection \<open>Rating statistics\<close>

text \<open>
  A \<^verbatim>\<open>float64\<close> is read as the real number it stands for. The engine's \<^verbatim>\<open>AVG\<close> over integer
  scores converts their sum and their number to \<^verbatim>\<open>double\<close> and divides; both steps round
  to the nearest value with a significand of 53 bits, ties to the even significand. The
  operands are integers of at most 64 bits, so infinities, NaN and subnormal values do
  not arise. The aggregate is \<^verbatim>\<open>NULL\<close> over no rows, and \<^verbatim>\<open>Scan\<close> into a \<^verbatim>\<open>float64\<close> refuses
  \<^verbatim>\<open>NULL\<close>.
\<close>

text \<open>The number of binary digits of a positive integer.\<close>

function bit_length :: "int \<Rightarrow> int" where
  "bit_length n = (if n \<le> 0 then 0 else 1 + bit_length (n div 2))"
  by pat_completeness auto
termination
  by (relation "measure nat") auto

declare bit_length.simps [simp del]

text \<open>The integer nearest to \<open>n / d\<close> for \<open>d > 0\<close>, a tie going to the even one.\<close>

definition round_half_even :: "int \<Rightarrow> int \<Rightarrow> int" where
  "round_half_even n d =
     (let q = n div d; r = n mod d
      in if 2 * r < d then q else if d < 2 * r then q + 1 else if even q then q else q + 1)"

text \<open>
  For positive \<open>a\<close> and \<open>c\<close>: the quotient \<open>a / (c * 2\<^sup>e)\<close> as a fraction of integers, the exponent \<open>e\<close> that brings it
  into the range from \<open>2\<^sup>5\<^sup>2\<close> up to \<open>2\<^sup>5\<^sup>3\<close>, and the significand: that fraction, rounded.
\<close>

definition scaled_num :: "int \<Rightarrow> int \<Rightarrow> int" where
  "scaled_num a e = a * 2 ^ nat (- e)"

definition scaled_den :: "int \<Rightarrow> int \<Rightarrow> int" where
  "scaled_den c e = c * 2 ^ nat e"

definition float64_exponent :: "int \<Rightarrow> int \<Rightarrow> int" where
  "float64_exponent a c =
     (let e = bit_length a - bit_length c - 53
      in if 2 ^ 53 * scaled_den c e \<le> scaled_num a e then e + 1 else e)"

definition float64_significand :: "int \<Rightarrow> int \<Rightarrow> int" where
  "float64_significand a c =
     (let e = float64_exponent a c in round_half_even (scaled_num a e) (scaled_den c e))"

definition float64_value :: "int \<Rightarrow> int \<Rightarrow> real" where
  "float64_value m e =
     (if 0 \<le> e then real_of_int (m * 2 ^ nat e) else real_of_int m / 2 ^ nat (- e))"

text \<open>
  The conversion of an integer to \<^verbatim>\<open>double\<close> (the result is again an integer) and the
  division of two integer-valued doubles. The divisor is not zero where the engine
  divides.
\<close>

definition float64_of_int :: "int \<Rightarrow> int" where
  "float64_of_int i =
     (if \<bar>i\<bar> < 2 ^ 53 then i
      else sgn i * (float64_significand \<bar>i\<bar> 1 * 2 ^ nat (float64_exponent \<bar>i\<bar> 1)))"

definition float64_quotient :: "int \<Rightarrow> int \<Rightarrow> real" where
  "float64_quotient s c =
     (if s = 0 \<or> c = 0 then 0
      else real_of_int (sgn s * sgn c)
           * float64_value (float64_significand \<bar>s\<bar> \<bar>c\<bar>) (float64_exponent \<bar>s\<bar> \<bar>c\<bar>))"

definition sql_AVG :: "int list \<Rightarrow> real option" where
  "sql_AVG xs =
     (if xs = [] then None
      else Some (float64_quotient (float64_of_int (sum_list xs)) (float64_of_int (int (length xs)))))"

definition Scan_float64 :: "real option \<Rightarrow> db_error + real" where
  "Scan_float64 v =
     (case v of
        None \<Rightarrow> Inl (EngineError ''sql: Scan error on column index 0: converting NULL to float64 is unsupported'')
      | Some x \<Rightarrow> Inr x)"

text \<open>\<^verbatim>\<open>SELECT rating, COUNT(*) FROM ratings GROUP BY rating ORDER BY rating\<close>.\<close>

definition rating_groups :: "int list \<Rightarrow> (int \<times> int) list" where
  "rating_groups xs = map (\<lambda>r. (r, int (count_list xs r))) (sort (remdups xs))"

text \<open>
  The result of \<^verbatim>\<open>GetRatingStats\<close>: the three entries of the map it returns, the
  distribution being a Go \<^verbatim>\<open>map[int]int\<close>. The variable \<^verbatim>\<open>avgRating\<close> starts at zero and
  keeps that value when the error of the scan is \<^verbatim>\<open>sql.ErrNoRows\<close>.
\<close>

record RatingStats =
  average_rating :: real
  distribution :: "int \<rightharpoonup> int"
  total_ratings :: int

definition GetRatingStats :: "DB \<Rightarrow> db_error + RatingStats" where
  "GetRatingStats db =
     (case (case Scan_float64 (sql_AVG (map rating_Rating (ratings db))) of
              Inl err \<Rightarrow> (if err \<noteq> ErrNoRows then Inl (Wrapf ''failed to get average rating'' err)
                          else Inr 0)
            | Inr v \<Rightarrow> Inr v) of
        Inl err \<Rightarrow> Inl err
      | Inr avgRating \<Rightarrow>
          (let rows = rating_groups (map rating_Rating (ratings db));
               distribution = fold (\<lambda>(rating, count) m. m(rating \<mapsto> count)) rows Map.empty;
               totalRatings = int (length (ratings db))
           in Inr \<lparr>average_rating = avgRating, distribution = distribution,
                    total_ratings = totalRatings\<rparr>))"

subsection \<open>The in-memory conversation of the models package\<close>

text \<open>
  \<^verbatim>\<open>Conversation.AddMessage\<close> of the \<^verbatim>\<open>models\<close> package keeps the same two counters on a
  conversation value that carries its messages; of a message it reads the type and the
  character count. The reading of the clock is an argument.
\<close>

record ModelConversation = Conversation +
  conv_Messages :: "Message list"

definition AddMessage :: "nat \<Rightarrow> ModelConversation \<Rightarrow> Message \<Rightarrow> ModelConversation" where
  "AddMessage now c message =
     (let c = c\<lparr>conv_Messages := conv_Messages c @ [message]\<rparr>;
          c = (if msg_MessageType message = ''prompt''
               then c\<lparr>conv_PromptCount := conv_PromptCount c + 1\<rparr> else c);
          c = c\<lparr>conv_TotalCharacters := conv_TotalCharacters c + msg_CharacterCount message\<rparr>
      in c\<lparr>conv_UpdatedAt := now\<rparr>)"

definition model_s1 :: ModelConversation where
  "model_s1 = \<lparr>conv_ID = 1, conv_SessionID = ''s1'', conv_Title = None, conv_CreatedAt = 0,
     conv_UpdatedAt = 0, conv_PromptCount = 0, conv_TotalCharacters = 0,
     conv_WorkingDirectory = None, conv_TranscriptPath = None, conv_Messages = []\<rparr>"

section \<open>Migration runner\<close>

text \<open>
  \<^verbatim>\<open>filepath.Base\<close> on a slash-separated path: trailing slashes are dropped, the last
  element is kept, an empty path is \<^verbatim>\<open>.\<close> and a path of slashes only is \<^verbatim>\<open>/\<close>.
\<close>

definition Base :: "string \<Rightarrow> string" where
  "Base path =
     (if path = [] then ''.''
      else
        (let stripped = rev (dropWhile (\<lambda>c. c = CHR ''/'') (rev path));
             element = rev (takeWhile (\<lambda>c. c \<noteq> CHR ''/'') (rev stripped))
         in if element = [] then ''/'' else element))"

definition extractVersionFromFilename :: "string \<Rightarrow> string" where
  "extractVersionFromFilename filename =
     (let base = Base filename in if length base \<ge> 3 then take 3 base else base)"

text \<open>
  The database the runner works on: what the migration scripts build, of any type \<open>'s\<close>,
  and the bookkeeping table \<^verbatim>\<open>schema_migrations\<close> (absent before its creation) as the list
  of its \<^verbatim>\<open>version\<close> keys; the column \<^verbatim>\<open>applied_at\<close> takes the engine's clock and decides
  nothing. Scripts act on the \<open>'s\<close> part only: the bookkeeping table belongs to the runner.
\<close>

record 's MigDB =
  schema :: 's
  schema_migrations :: "string list option"

text \<open>
  The storage engine as the runner sees it. \<^verbatim>\<open>exec_script\<close> runs the statements of a script
  in turn and stops at the first that fails: it returns whether all succeeded, and the
  state left by the statements that ran. \<^verbatim>\<open>fails\<close> tells which of the runner's own calls
  the engine refuses in a given state (a locked or damaged file, a full disk).
\<close>

datatype engine_op = OpCreateTable | OpQuery | OpBegin | OpInsert | OpCommit

record 's Engine =
  exec_script :: "string \<Rightarrow> 's \<Rightarrow> bool \<times> 's"
  fails :: "engine_op \<Rightarrow> 's MigDB \<Rightarrow> bool"

text \<open>
  The file system: \<^verbatim>\<open>filepath.Glob\<close> (\<^verbatim>\<open>None\<close> for a malformed pattern, else the matching
  paths in sorted order) and \<^verbatim>\<open>os.ReadFile\<close> (\<^verbatim>\<open>None\<close> when the file cannot be read).
\<close>

record FileSystem =
  Glob :: "string \<Rightarrow> string list option"
  ReadFile :: "string \<Rightarrow> string option"

text \<open>
  \<^verbatim>\<open>filepath.Join\<close> of a directory and a file name. The joined path is only handed to
  \<^verbatim>\<open>Glob\<close>, which is a parameter here, so the cleaning of the path is left to it.
\<close>

definition Join :: "string \<Rightarrow> string \<Rightarrow> string" where
  "Join dir name = (if dir = [] then name else dir @ ''/'' @ name)"

text \<open>\<^verbatim>\<open>SELECT COUNT(*) FROM schema_migrations WHERE version = ?\<close>.\<close>

definition count_version :: "'s Engine \<Rightarrow> 's MigDB \<Rightarrow> string \<Rightarrow> db_error + nat" where
  "count_version eng db version =
     (if fails eng OpQuery db then Inl (EngineError ''query failed'')
      else case schema_migrations db of
             None \<Rightarrow> Inl (EngineError ''no such table: schema_migrations'')
           | Some rows \<Rightarrow> Inr (count_list rows version))"

text \<open>\<^verbatim>\<open>tx.Exec(string(content))\<close>: the script runs on the working copy of the transaction.\<close>

definition tx_Exec_script :: "'s Engine \<Rightarrow> 's MigDB Tx \<Rightarrow> string \<Rightarrow> bool \<times> 's MigDB Tx" where
  "tx_Exec_script eng tx content =
     (let (ok, s) = exec_script eng content (schema (working tx))
      in (ok, tx\<lparr>working := (working tx)\<lparr>schema := s\<rparr>\<rparr>))"

text \<open>
  \<^verbatim>\<open>INSERT INTO schema_migrations (version) VALUES (?)\<close> inside the transaction; the
  column is the primary key.
\<close>

definition tx_Exec_insert :: "'s Engine \<Rightarrow> 's MigDB Tx \<Rightarrow> string \<Rightarrow> bool \<times> 's MigDB Tx" where
  "tx_Exec_insert eng tx version =
     (if fails eng OpInsert (working tx) then (False, tx)
      else case schema_migrations (working tx) of
             None \<Rightarrow> (False, tx)
           | Some rows \<Rightarrow>
               if version \<in> set rows then (False, tx)
               else (True, tx\<lparr>working := (working tx)\<lparr>schema_migrations := Some (rows @ [version])\<rparr>\<rparr>))"

text \<open>
  The body of the loop of \<^verbatim>\<open>RunMigrations\<close> for one file, after the check that its
  version is not recorded: \<^verbatim>\<open>None\<close> when the loop goes on, the error when the run returns.
  When the commit itself fails the driver rolls the transaction back. The line printed
  for an applied migration is not part of the model.
\<close>

definition apply_migration ::
  "'s Engine \<Rightarrow> FileSystem \<Rightarrow> string \<Rightarrow> string \<Rightarrow> 's MigDB \<Rightarrow> db_error option \<times> 's MigDB" where
  "apply_migration eng fs file version db =
     (case ReadFile fs file of
        None \<Rightarrow> (Some (Wrapf (''failed to read migration file '' @ file) (EngineError ''read failed'')), db)
      | Some content \<Rightarrow>
          if fails eng OpBegin db
          then (Some (Wrapf ''failed to begin migration transaction'' (EngineError ''begin failed'')), db)
          else
            (let tx = Begin db in
             case tx_Exec_script eng tx content of
               (False, tx) \<Rightarrow>
                 (Some (Wrapf (''failed to execute migration '' @ file) (EngineError ''statement failed'')),
                  Rollback tx)
             | (True, tx) \<Rightarrow>
                 (case tx_Exec_insert eng tx version of
                    (False, tx) \<Rightarrow>
                      (Some (Wrapf (''failed to record migration '' @ file) (EngineError ''insert failed'')),
                       Rollback tx)
                  | (True, tx) \<Rightarrow>
                      if fails eng OpCommit (working tx)
                      then (Some (Wrapf (''failed to commit migration '' @ file) (EngineError ''commit failed'')),
                            Rollback tx)
                      else (None, Commit tx))))"

definition migrate_file ::
  "'s Engine \<Rightarrow> FileSystem \<Rightarrow> string \<Rightarrow> 's MigDB \<Rightarrow> db_error option \<times> 's MigDB" where
  "migrate_file eng fs file db =
     (let version = extractVersionFromFilename file in
      case count_version eng db version of
        Inl err \<Rightarrow> (Some (Wrapf ''failed to check migration status'' err), db)
      | Inr count \<Rightarrow>
          if count > 0 then (None, db)
          else apply_migration eng fs file version db)"

text \<open>The loop over the files found: it stops at the first error.\<close>

fun migrate_files ::
  "'s Engine \<Rightarrow> FileSystem \<Rightarrow> string list \<Rightarrow> 's MigDB \<Rightarrow> db_error option \<times> 's MigDB" where
  "migrate_files eng fs [] db = (None, db)"
| "migrate_files eng fs (file # files) db =
     (case migrate_file eng fs file db of
        (Some err, db') \<Rightarrow> (Some err, db')
      | (None, db') \<Rightarrow> migrate_files eng fs files db')"

definition RunMigrations ::
  "'s Engine \<Rightarrow> FileSystem \<Rightarrow> string \<Rightarrow> 's MigDB \<Rightarrow> db_error option \<times> 's MigDB" where
  "RunMigrations eng fs migrationsDir db =
     (if fails eng OpCreateTable db
      then (Some (Wrapf ''failed to create migrations table'' (EngineError ''create failed'')), db)
      else
        (let db = db\<lparr>schema_migrations :=
                      Some (case schema_migrations db of None \<Rightarrow> [] | Some rows \<Rightarrow> rows)\<rparr>
         in case Glob fs (Join migrationsDir ''*.up.sql'') of
              None \<Rightarrow> (Some (Wrapf ''failed to find migration files'' (EngineError ''syntax error in pattern'')), db)
            | Some files \<Rightarrow> migrate_files eng fs files db))"

text \<open>
  A small engine and directory to run the runner on: the state is the list of the tables
  created so far, each character of a script is one statement creating the table of that
  name, and creating a table that exists fails.
\<close>

fun create_tables :: "string \<Rightarrow> string \<Rightarrow> bool \<times> string" where
  "create_tables [] s = (True, s)"
| "create_tables (c # cs) s = (if c \<in> set s then (False, s) else create_tables cs (s @ [c]))"

definition table_engine :: "string Engine" where
  "table_engine = \<lparr>exec_script = create_tables, fails = (\<lambda>op db. False)\<rparr>"

definition directory :: "(string \<times> string) list \<Rightarrow> FileSystem" where
  "directory entries = \<lparr>Glob = (\<lambda>pattern. Some (map fst entries)), ReadFile = map_of entries\<rparr>"

text \<open>The same file system with another answer of \<^verbatim>\<open>Glob\<close>: a directory holding these files.\<close>

definition with_files :: "FileSystem \<Rightarrow> string list \<Rightarrow> FileSystem" where
  "with_files fs files = fs\<lparr>Glob := (\<lambda>pattern. Some files)\<rparr>"

definition fresh_MigDB :: "string MigDB" where
  "fresh_MigDB = \<lparr>schema = [], schema_migrations = None\<rparr>"

section \<open>The scenario of the specification\<close>

text \<open>
  A conversation for session \<^verbatim>\<open>s1\<close> in an empty store, a prompt \<^verbatim>\<open>hello\<close>, a response
  \<^verbatim>\<open>hi there\<close>, then the ratings 5 and 3 on the conversation.
\<close>

definition scenario_conversation :: DB where
  "scenario_conversation = snd (CreateConversation empty_DB ''s1'' None None None)"

definition scenario_prompt :: DB where
  "scenario_prompt = snd (CreateMessage scenario_conversation 1 ''prompt'' ''hello'' None None)"

definition scenario_response :: DB where
  "scenario_response = snd (CreateMessage scenario_prompt 1 ''response'' ''hi there'' None None)"

definition scenario_rated :: DB where
  "scenario_rated =
     snd (CreateConversationRating (snd (CreateConversationRating scenario_response 1 5 None)) 1 3 None)"

text \<open>The store of the scenario before the ratings, with the ratings 5, 4 and 4 instead.\<close>

definition scenario_rated_544 :: DB where
  "scenario_rated_544 =
     snd (CreateConversationRating
       (snd (CreateConversationRating (snd (CreateConversationRating scenario_response 1 5 None)) 1 4 None))
       1 4 None)"

text \<open>
  The number of prompt-typed messages of a conversation and the sum of the content
  lengths of its messages, counted from the rows of the messages table.
\<close>

definition prompt_messages :: "DB \<Rightarrow> int \<Rightarrow> int" where
  "prompt_messages db cid =
     int (length (filter (\<lambda>m. msg_ConversationID m = cid \<and> msg_MessageType m = ''prompt'') (messages db)))"

definition content_characters :: "DB \<Rightarrow> int \<Rightarrow> int" where
  "content_characters db cid =
     sum_list (map (\<lambda>m. int (length (msg_Content m)))
       (filter (\<lambda>m. msg_ConversationID m = cid) (messages db)))"

text \<open>
  The scenario continued: a rating 4 on the prompt, a second conversation \<^verbatim>\<open>s2\<close> and a
  prompt in it.
\<close>

definition scenario_full :: DB where
  "scenario_full =
     snd (CreateMessage
       (snd (CreateConversation (snd (CreateMessageRating scenario_rated 1 4 None)) ''s2'' None None None))
       2 ''prompt'' ''other'' None None)"

text \<open>The stored character count of every message is the length of its stored content.\<close>

definition character_counts_consistent :: "DB \<Rightarrow> bool" where
  "character_counts_consistent db =
     list_all (\<lambda>m. msg_CharacterCount m = int (length (msg_Content m))) (messages db)"

text \<open>
  The rows of the bookkeeping table, and the state in which a script is fully applied:
  the schema as the whole script leaves it and the script's version recorded.
\<close>

definition recorded :: "'s MigDB \<Rightarrow> string list" where
  "recorded db = (case schema_migrations db of None \<Rightarrow> [] | Some rows \<Rightarrow> rows)"

definition applied_state :: "'s Engine \<Rightarrow> string \<Rightarrow> string \<Rightarrow> 's MigDB \<Rightarrow> 's MigDB" where
  "applied_state eng content version db =
     db\<lparr>schema := snd (exec_script eng content (schema db)),
        schema_migrations := Some (recorded db @ [version])\<rparr>"

text \<open>
  An engine that refuses every insert into the bookkeeping table, and two directories:
  two scripts of which the second fails in its second statement, and two scripts that
  run.
\<close>

definition readonly_bookkeeping_engine :: "string Engine" where
  "readonly_bookkeeping_engine = \<lparr>exec_script = create_tables, fails = (\<lambda>op db. op = OpInsert)\<rparr>"

definition failing_directory :: FileSystem where
  "failing_directory = directory [(''m/001_a.up.sql'', ''uc''), (''m/002_b.up.sql'', ''mu'')]"

definition good_directory :: FileSystem where
  "good_directory = directory [(''m/001_a.up.sql'', ''uc''), (''m/002_b.up.sql'', ''m'')]"

section \<open>Properties of the connection configurator\<close>

lemma go_quot_pos: "0 < a \<Longrightarrow> 0 < b \<Longrightarrow> go_quot a b = a div b"
  by (simp add: go_quot_def)

lemma sprint_d_nonneg: "0 \<le> i \<Longrightarrow> sprint_d i = decimal (nat i)"
  by (simp add: sprint_d_def)

lemma join_amp_Cons: "ps \<noteq> [] \<Longrightarrow> join_amp (p # ps) = p @ ''&'' @ join_amp ps"
  by (cases ps) simp_all

lemma decimal_30000: "decimal 30000 = ''30000''"
  by (simp add: decimal.simps [of 30000] decimal.simps [of 3000] decimal.simps [of 300]
      decimal.simps [of 30] decimal.simps [of 3] decimal.simps [of 0] digit_char_def)

text \<open>
  C8. The connection string is the file path, \<^verbatim>\<open>?\<close>, the foreign-keys flag always, then
  the busy timeout in milliseconds exactly when it is positive, the WAL journal flag
  exactly when WAL mode is on, and the synchronisation strength exactly when it is not
  empty, in that order: the function computes the composition the specification words, so
  equal configurations give equal strings.
\<close>

theorem buildConnectionString_canonical:
  "buildConnectionString config = connection_target_spec config"
proof -
  have q: "0 < BusyTimeout config \<Longrightarrow>
      sprint_d (go_quot (BusyTimeout config) Millisecond) = decimal (nat (BusyTimeout config div 1000000))"
    by (simp add: go_quot_pos Millisecond_def sprint_d_nonneg pos_imp_zdiv_nonneg_iff)
  show ?thesis
    using q
    by (simp add: buildConnectionString_def connection_target_spec_def tuning_parameters_spec_def
        Let_def)
qed

theorem buildConnectionString_canonical_witness:
  "buildConnectionString (empty_Config\<lparr>DatabasePath := ''test.db'', BusyTimeout := 30 * Second,
       WALMode := True, Synchronous := ''NORMAL''\<rparr>)
     = ''test.db?foreign_keys=1&_busy_timeout=30000&_journal_mode=WAL&_sync=NORMAL''"
  using buildConnectionString_canonical [of "empty_Config\<lparr>DatabasePath := ''test.db'',
       BusyTimeout := 30 * Second, WALMode := True, Synchronous := ''NORMAL''\<rparr>"]
  by (simp add: connection_target_spec_def tuning_parameters_spec_def empty_Config_def
      Second_def Millisecond_def decimal_30000)

section \<open>Properties of the float64 quotient\<close>

lemma bit_length_bounds:
  "0 < n \<Longrightarrow> 1 \<le> bit_length n \<and> 2 ^ nat (bit_length n - 1) \<le> n \<and> n < 2 ^ nat (bit_length n)"
proof (induction n rule: bit_length.induct)
  case (1 n)
  show ?case
  proof (cases "n = 1")
    case True
    then show ?thesis
      by (simp add: bit_length.simps [of 1] bit_length.simps [of 0])
  next
    case False
    then have h: "0 < n div 2" using "1.prems" by simp
    have ih: "1 \<le> bit_length (n div 2)" "2 ^ nat (bit_length (n div 2) - 1) \<le> n div 2"
      "n div 2 < 2 ^ nat (bit_length (n div 2))"
      using "1.IH" "1.prems" h by simp_all
    have b: "bit_length n = 1 + bit_length (n div 2)"
      using "1.prems" by (simp add: bit_length.simps [of n])
    have p: "(2::int) ^ nat (1 + bit_length (n div 2) - 1) = 2 * 2 ^ nat (bit_length (n div 2) - 1)"
      using ih(1) by (metis add_diff_cancel_left' diff_add_cancel power_Suc
          Suc_nat_eq_nat_zadd1 add.commute diff_ge_0_iff_ge)
    have p2: "(2::int) ^ nat (1 + bit_length (n div 2)) = 2 * 2 ^ nat (bit_length (n div 2))"
      using ih(1) by (simp add: nat_add_distrib)
    show ?thesis
      unfolding b p p2 using ih by auto
  qed
qed

lemma round_half_even_error:
  assumes "0 < d"
  shows "\<bar>2 * (round_half_even n d * d - n)\<bar> \<le> d"
proof -
  have n: "n = d * (n div d) + n mod d" by simp
  have r: "0 \<le> n mod d" "n mod d < d" using assms by simp_all
  define q where "q = n div d"
  define r where "r = n mod d"
  have n': "n = d * q + r" using n by (simp add: q_def r_def)
  have r': "0 \<le> r" "r < d" using r by (simp_all add: r_def)
  have "round_half_even n d = q \<and> 2 * r \<le> d \<or> round_half_even n d = q + 1 \<and> d \<le> 2 * r"
    by (auto simp add: round_half_even_def Let_def q_def r_def)
  then show ?thesis
  proof
    assume a: "round_half_even n d = q \<and> 2 * r \<le> d"
    then have "round_half_even n d * d - n = - r"
      using n' by (simp add: algebra_simps)
    then show ?thesis using a r' by simp
  next
    assume a: "round_half_even n d = q + 1 \<and> d \<le> 2 * r"
    then have "round_half_even n d * d - n = d - r"
      using n' by (simp add: algebra_simps)
    then show ?thesis using a r' by simp
  qed
qed


lemma two_powr_nat: "0 \<le> k \<Longrightarrow> (2::real) ^ nat k = 2 powr real_of_int k"
  by (simp add: powr_realpow [symmetric])

lemma scaled_ratio:
  assumes "0 < c"
  shows "real_of_int (scaled_num a e) / real_of_int (scaled_den c e)
       = (real_of_int a / real_of_int c) / 2 powr real_of_int e"
proof (cases "0 \<le> e")
  case True
  then show ?thesis
    by (simp add: scaled_num_def scaled_den_def two_powr_nat)
next
  case False
  then have k: "0 \<le> - e" by simp
  have "(2::real) ^ nat (- e) = 2 powr real_of_int (- e)"
    by (rule two_powr_nat [OF k])
  also have "\<dots> = 1 / 2 powr real_of_int e"
    by (simp add: powr_minus divide_simps)
  finally show ?thesis
    using False by (simp add: scaled_num_def scaled_den_def)
qed

lemma float64_value_powr: "float64_value m e = real_of_int m * 2 powr real_of_int e"
proof (cases "0 \<le> e")
  case True
  then show ?thesis
    by (simp add: float64_value_def two_powr_nat)
next
  case False
  then have k: "0 \<le> - e" by simp
  have "(2::real) ^ nat (- e) = 2 powr real_of_int (- e)"
    by (rule two_powr_nat [OF k])
  also have "\<dots> = 1 / 2 powr real_of_int e"
    by (simp add: powr_minus divide_simps)
  finally show ?thesis
    using False by (simp add: float64_value_def)
qed

lemma bit_length_powr:
  assumes "0 < n"
  shows "2 powr (real_of_int (bit_length n) - 1) \<le> real_of_int n"
    and "real_of_int n < 2 powr real_of_int (bit_length n)"
proof -
  note b = bit_length_bounds [OF assms]
  have "real_of_int (2 ^ nat (bit_length n - 1)) \<le> real_of_int n"
    using b by (simp only: of_int_le_iff)
  moreover have "(2::real) ^ nat (bit_length n - 1) = 2 powr real_of_int (bit_length n - 1)"
    using b by (intro two_powr_nat) simp
  ultimately show "2 powr (real_of_int (bit_length n) - 1) \<le> real_of_int n"
    by simp
  have "real_of_int n < real_of_int (2 ^ nat (bit_length n))"
    using b by (simp only: of_int_less_iff)
  moreover have "(2::real) ^ nat (bit_length n) = 2 powr real_of_int (bit_length n)"
    using b by (intro two_powr_nat) simp
  ultimately show "real_of_int n < 2 powr real_of_int (bit_length n)"
    by simp
qed

lemma float64_exponent_range:
  assumes "0 < a" "0 < c"
  shows "2 ^ 52 \<le> (real_of_int a / real_of_int c) / 2 powr real_of_int (float64_exponent a c)
     \<and> (real_of_int a / real_of_int c) / 2 powr real_of_int (float64_exponent a c) < 2 ^ 53"
proof -
  define la where "la = real_of_int (bit_length a)"
  define lc where "lc = real_of_int (bit_length c)"
  define e0 where "e0 = bit_length a - bit_length c - 53"
  define x where "x = real_of_int a / real_of_int c"
  define x0 where "x0 = x / 2 powr real_of_int e0"
  have ra: "0 < real_of_int a" and rc: "0 < real_of_int c"
    using assms by simp_all
  have a1: "2 powr (la - 1) \<le> real_of_int a" and a2: "real_of_int a < 2 powr la"
    using bit_length_powr [OF assms(1)] by (simp_all add: la_def)
  have c1: "2 powr (lc - 1) \<le> real_of_int c" and c2: "real_of_int c < 2 powr lc"
    using bit_length_powr [OF assms(2)] by (simp_all add: lc_def)
  have e0r: "real_of_int e0 = la - lc - 53"
    by (simp add: e0_def la_def lc_def)
  have up: "x < 2 powr (la - lc + 1)"
  proof -
    have "x < 2 powr la / real_of_int c"
      unfolding x_def using a2 rc by (simp add: divide_strict_right_mono)
    also have "\<dots> \<le> 2 powr la / 2 powr (lc - 1)"
      using c1 rc by (intro divide_left_mono mult_pos_pos) simp_all
    also have "\<dots> = 2 powr (la - lc + 1)"
      by (simp add: powr_diff [symmetric] algebra_simps)
    finally show ?thesis .
  qed
  have lo: "2 powr (la - 1 - lc) < x"
  proof -
    have "2 powr (la - 1 - lc) = 2 powr (la - 1) / 2 powr lc"
      by (simp add: powr_diff)
    also have "\<dots> < 2 powr (la - 1) / real_of_int c"
      using c2 rc by (intro divide_strict_left_mono) simp_all
    also have "\<dots> \<le> x"
      unfolding x_def using a1 rc by (simp add: divide_right_mono)
    finally show ?thesis .
  qed
  have x0up: "x0 < 2 ^ 54"
  proof -
    have "x0 < 2 powr (la - lc + 1) / 2 powr real_of_int e0"
      unfolding x0_def using up by (simp add: divide_strict_right_mono)
    also have "\<dots> = 2 powr 54"
      by (simp add: powr_diff [symmetric] e0r)
    also have "\<dots> = 2 ^ 54"
      using powr_realpow [of "2::real" 54] by simp
    finally show ?thesis .
  qed
  have x0lo: "2 ^ 52 < x0"
  proof -
    have "(2::real) ^ 52 = 2 powr 52"
      using powr_realpow [of "2::real" 52] by simp
    also have "\<dots> = 2 powr (la - 1 - lc) / 2 powr real_of_int e0"
      by (simp add: powr_diff [symmetric] e0r)
    also have "\<dots> < x0"
      unfolding x0_def using lo by (simp add: divide_strict_right_mono)
    finally show ?thesis .
  qed
  have d0: "0 < real_of_int (scaled_den c e0)"
    using assms(2) by (simp add: scaled_den_def)
  have ratio: "real_of_int (scaled_num a e0) / real_of_int (scaled_den c e0) = x0"
    using scaled_ratio [OF assms(2), of a e0] by (simp add: x0_def x_def)
  have cond: "(2 ^ 53 * scaled_den c e0 \<le> scaled_num a e0) \<longleftrightarrow> 2 ^ 53 \<le> x0"
  proof -
    have "(2 ^ 53 * scaled_den c e0 \<le> scaled_num a e0)
        \<longleftrightarrow> real_of_int (2 ^ 53 * scaled_den c e0) \<le> real_of_int (scaled_num a e0)"
      by (simp only: of_int_le_iff)
    also have "\<dots> \<longleftrightarrow> 2 ^ 53 \<le> real_of_int (scaled_num a e0) / real_of_int (scaled_den c e0)"
      using d0 by (simp add: pos_le_divide_eq)
    finally show ?thesis
      by (simp add: ratio)
  qed
  show ?thesis
  proof (cases "2 ^ 53 \<le> x0")
    case True
    then have e: "float64_exponent a c = e0 + 1"
      using cond by (simp add: float64_exponent_def e0_def Let_def)
    have "2 powr real_of_int (e0 + 1) = 2 * 2 powr real_of_int e0"
      by (simp add: powr_add)
    then have h: "x / 2 powr real_of_int (float64_exponent a c) = x0 / 2"
      by (simp add: e x0_def)
    have "2 ^ 52 \<le> x / 2 powr real_of_int (float64_exponent a c)
        \<and> x / 2 powr real_of_int (float64_exponent a c) < 2 ^ 53"
      unfolding h using True x0up by simp
    then show ?thesis
      by (simp add: x_def)
  next
    case False
    then have e: "float64_exponent a c = e0"
      using cond by (simp add: float64_exponent_def e0_def Let_def)
    then have h: "x / 2 powr real_of_int (float64_exponent a c) = x0"
      by (simp add: x0_def)
    have "2 ^ 52 \<le> x / 2 powr real_of_int (float64_exponent a c)
        \<and> x / 2 powr real_of_int (float64_exponent a c) < 2 ^ 53"
      unfolding h using False x0lo by simp
    then show ?thesis
      by (simp add: x_def)
  qed
qed

lemma float64_quotient_nearest:
  assumes "0 < s" "0 < c"
  shows "\<bar>float64_quotient s c - real_of_int s / real_of_int c\<bar>
     \<le> (real_of_int s / real_of_int c) / 2 ^ 53"
proof -
  define e where "e = float64_exponent s c"
  define t where "t = 2 powr real_of_int e"
  define m where "m = float64_significand s c"
  define x where "x = real_of_int s / real_of_int c"
  define N where "N = scaled_num s e"
  define D where "D = scaled_den c e"
  have t: "0 < t" by (simp add: t_def)
  have D: "0 < D" using assms(2) by (simp add: D_def scaled_den_def)
  have m: "m = round_half_even N D"
    by (simp add: m_def float64_significand_def Let_def N_def D_def e_def)
  have ratio: "real_of_int N / real_of_int D = x / t"
    using scaled_ratio [OF assms(2), of s e] by (simp add: N_def D_def x_def t_def)
  have "\<bar>2 * (m * D - N)\<bar> \<le> D"
    unfolding m by (rule round_half_even_error [OF D])
  then have r1: "real_of_int \<bar>2 * (m * D - N)\<bar> \<le> real_of_int D"
    by (simp only: of_int_le_iff)
  have r2: "real_of_int \<bar>2 * (m * D - N)\<bar> = 2 * \<bar>real_of_int m * real_of_int D - real_of_int N\<bar>"
    by (simp only: of_int_abs of_int_mult of_int_diff of_int_numeral abs_mult abs_numeral)
  have r3: "2 * \<bar>real_of_int m * real_of_int D - real_of_int N\<bar> \<le> real_of_int D"
    using r1 unfolding r2 .
  have h: "\<bar>real_of_int m * real_of_int D - real_of_int N\<bar> \<le> real_of_int D / 2"
    using r3 by simp
  have eq: "real_of_int m - real_of_int N / real_of_int D
      = (real_of_int m * real_of_int D - real_of_int N) / real_of_int D"
    using D by (simp add: field_simps)
  have "\<bar>real_of_int m - real_of_int N / real_of_int D\<bar> \<le> 1 / 2"
    unfolding eq abs_divide using D h by (simp add: pos_divide_le_eq)
  then have half: "\<bar>real_of_int m - x / t\<bar> \<le> 1 / 2"
    by (simp add: ratio)
  have v: "float64_quotient s c = real_of_int m * t"
    using assms by (simp add: float64_quotient_def float64_value_powr m_def t_def e_def)
  have "\<bar>real_of_int m * t - x\<bar> = t * \<bar>real_of_int m - x / t\<bar>"
    using t by (simp add: abs_mult [symmetric] field_simps)
  also have "\<dots> \<le> t * (1 / 2)"
    using half t by (intro mult_left_mono) simp_all
  finally have err: "\<bar>real_of_int m * t - x\<bar> \<le> t / 2"
    by simp
  have "2 ^ 52 \<le> x / t"
    using float64_exponent_range [OF assms] by (simp add: x_def t_def e_def)
  then have "2 ^ 52 * t \<le> x"
    using t by (simp add: pos_le_divide_eq)
  then have "t / 2 \<le> x / 2 ^ 53"
    by simp
  then show ?thesis
    using err by (simp add: v x_def)
qed

section \<open>Properties of the rating statistics\<close>

lemma fold_upd_groups:
  "fold (\<lambda>(k, v) m. m(k \<mapsto> v)) (map (\<lambda>k. (k, f k)) ks) m0
     = (\<lambda>x. if x \<in> set ks then Some (f x) else m0 x)"
  by (induction ks arbitrary: m0) (auto simp: fun_eq_iff)

lemma distribution_of_groups:
  "fold (\<lambda>(rating, count) m. m(rating \<mapsto> count)) (rating_groups xs) Map.empty
     = (\<lambda>k. if k \<in> set xs then Some (int (count_list xs k)) else None)"
  by (simp add: rating_groups_def fold_upd_groups)

lemma GetRatingStats_value:
  assumes "ratings db \<noteq> []"
  shows "GetRatingStats db =
     Inr \<lparr>average_rating = float64_quotient (float64_of_int (sum_list (map rating_Rating (ratings db))))
                             (float64_of_int (int (length (ratings db)))),
          distribution = (\<lambda>k. if k \<in> set (map rating_Rating (ratings db))
                               then Some (int (count_list (map rating_Rating (ratings db)) k)) else None),
          total_ratings = int (length (ratings db))\<rparr>"
  using assms
  by (simp add: GetRatingStats_def sql_AVG_def Scan_float64_def distribution_of_groups Let_def)

lemma rated_rows: "ratings scenario_rated =
    [\<lparr>rating_ID = 1, rating_ConversationID = Some 1, rating_MessageID = None, rating_Rating = 5,
       rating_Comment = None, rating_CreatedAt = 0, rating_UpdatedAt = 0\<rparr>,
     \<lparr>rating_ID = 2, rating_ConversationID = Some 1, rating_MessageID = None, rating_Rating = 3,
       rating_Comment = None, rating_CreatedAt = 0, rating_UpdatedAt = 0\<rparr>]"
  by code_simp

lemma rated_544_scores: "map rating_Rating (ratings scenario_rated_544) = [5, 4, 4]"
  by code_simp

lemma float64_quotient_examples:
  "float64_quotient (float64_of_int 8) (float64_of_int 2) = 4"
  "float64_quotient (float64_of_int 13) (float64_of_int 3) = 4878899596318037 / 2 ^ 50"
  by code_simp+

lemma sum_list_scores:
  assumes "\<forall>x\<in>set xs. 1 \<le> x \<and> x \<le> (5::int)"
  shows "int (length xs) \<le> sum_list xs \<and> sum_list xs \<le> 5 * int (length xs)"
  using assms by (induction xs) auto

text \<open>
  C2, as the code has it. For a store with at least one rating, \<^verbatim>\<open>GetRatingStats\<close> returns
  the number of rating rows; as the average the \<^verbatim>\<open>float64\<close> quotient of the sum of the
  stored scores by their number, which for scores between 1 and 5 is the arithmetic mean
  up to a relative rounding error of \<open>2\<^sup>-\<^sup>5\<^sup>3\<close>; and a distribution that maps each score that
  occurs to the number of its occurrences and has no entry for a score that does not
  occur.
\<close>

theorem GetRatingStats_nonempty:
  assumes "ratings db \<noteq> []"
  shows "\<exists>stats. GetRatingStats db = Inr stats
     \<and> total_ratings stats = int (length (ratings db))
     \<and> average_rating stats
         = float64_quotient (float64_of_int (sum_list (map rating_Rating (ratings db))))
             (float64_of_int (int (length (ratings db))))
     \<and> ((\<forall>r\<in>set (ratings db). 1 \<le> rating_Rating r \<and> rating_Rating r \<le> 5)
          \<and> 5 * int (length (ratings db)) < 2 ^ 53 \<longrightarrow>
          \<bar>average_rating stats
             - real_of_int (sum_list (map rating_Rating (ratings db))) / real (length (ratings db))\<bar>
          \<le> (real_of_int (sum_list (map rating_Rating (ratings db))) / real (length (ratings db))) / 2 ^ 53)
     \<and> distribution stats
         = (\<lambda>score. if score \<in> rating_Rating ` set (ratings db)
                     then Some (int (length (filter (\<lambda>r. rating_Rating r = score) (ratings db))))
                     else None)"
proof -
  let ?sum = "sum_list (map rating_Rating (ratings db))"
  let ?n = "int (length (ratings db))"
  have cl: "count_list (map rating_Rating rs) k = length (filter (\<lambda>r. rating_Rating r = k) rs)" for rs k
    by (induction rs) auto
  have bound: "\<bar>float64_quotient (float64_of_int ?sum) (float64_of_int ?n) - real_of_int ?sum / real (length (ratings db))\<bar>
      \<le> (real_of_int ?sum / real (length (ratings db))) / 2 ^ 53"
    if ck: "\<forall>r\<in>set (ratings db). 1 \<le> rating_Rating r \<and> rating_Rating r \<le> 5"
      and small: "5 * ?n < 2 ^ 53"
  proof -
    have n: "0 < ?n" using assms by simp
    have s: "?n \<le> ?sum" "?sum \<le> 5 * ?n"
      using sum_list_scores [of "map rating_Rating (ratings db)"] ck by simp_all
    have fs: "float64_of_int ?sum = ?sum" and fn: "float64_of_int ?n = ?n"
      using s n small by (simp_all add: float64_of_int_def)
    have pos: "0 < ?sum" using s n by linarith
    show ?thesis
      unfolding fs fn using float64_quotient_nearest [OF pos n] by simp
  qed
  show ?thesis
    using bound by (simp add: GetRatingStats_value [OF assms] fun_eq_iff cl)
qed

theorem GetRatingStats_nonempty_witness:
  "ratings scenario_rated \<noteq> []
   \<and> (case GetRatingStats scenario_rated of
        Inl err \<Rightarrow> False
      | Inr stats \<Rightarrow> average_rating stats = 4 \<and> distribution stats = [3 \<mapsto> 1, 5 \<mapsto> 1]
                      \<and> total_ratings stats = 2)"
proof -
  have h: "ratings scenario_rated \<noteq> []"
    by (simp add: rated_rows)
  from GetRatingStats_nonempty [OF h] obtain stats where
    s: "GetRatingStats scenario_rated = Inr stats"
      "total_ratings stats = int (length (ratings scenario_rated))"
      "average_rating stats
         = float64_quotient (float64_of_int (sum_list (map rating_Rating (ratings scenario_rated))))
             (float64_of_int (int (length (ratings scenario_rated))))"
      "distribution stats
         = (\<lambda>score. if score \<in> rating_Rating ` set (ratings scenario_rated)
                     then Some (int (length (filter (\<lambda>r. rating_Rating r = score) (ratings scenario_rated))))
                     else None)"
    by blast
  have "total_ratings stats = 2" "average_rating stats = 4"
    using s(2,3) by (simp_all add: rated_rows float64_quotient_examples)
  moreover have "distribution stats = [3 \<mapsto> 1, 5 \<mapsto> 1]"
    unfolding s(4) by (simp add: rated_rows fun_eq_iff)
  ultimately show ?thesis
    using h s(1) by simp
qed

text \<open>
  After the ratings 5 and 3 of the scenario the distribution has no entry for the scores
  1, 2 and 4: it is not the total mapping \<^verbatim>\<open>{1:0, 2:0, 3:1, 4:0, 5:1}\<close>. After the ratings
  5, 4 and 4 the average is the \<^verbatim>\<open>float64\<close> next to the mean, not the mean 13/3.
\<close>

theorem GetRatingStats_distribution_counterexample:
  "(case GetRatingStats scenario_rated of
        Inl err \<Rightarrow> None
      | Inr stats \<Rightarrow> Some (average_rating stats, map (distribution stats) [1, 2, 3, 4, 5],
                           total_ratings stats))
     = Some (4, [None, None, Some 1, None, Some 1], 2)
   \<and> (case GetRatingStats scenario_rated_544 of
        Inl err \<Rightarrow> None
      | Inr stats \<Rightarrow> Some (average_rating stats, average_rating stats = 13 / 3))
     = Some (4878899596318037 / 2 ^ 50, False)"
proof -
  have n: "ratings scenario_rated_544 \<noteq> []"
    using rated_544_scores by auto
  have l: "length (ratings scenario_rated_544) = 3"
    using arg_cong [OF rated_544_scores, of length] by simp
  show ?thesis
    by (simp add: GetRatingStats_value rated_rows GetRatingStats_value [OF n] rated_544_scores l
        float64_quotient_examples)
qed

text \<open>
  C10. Over an empty ratings table \<^verbatim>\<open>GetRatingStats\<close> returns the error of the failed scan
  of the \<^verbatim>\<open>NULL\<close> average, wrapped; it returns statistics exactly when the table holds a
  rating.
\<close>

theorem GetRatingStats_empty:
  "(ratings db = [] \<longrightarrow>
      GetRatingStats db = Inl (Wrapf ''failed to get average rating''
        (EngineError ''sql: Scan error on column index 0: converting NULL to float64 is unsupported'')))
   \<and> ((\<exists>stats. GetRatingStats db = Inr stats) \<longleftrightarrow> ratings db \<noteq> [])"
  by (auto simp add: GetRatingStats_def sql_AVG_def Scan_float64_def Let_def)

theorem GetRatingStats_empty_witness:
  "ratings empty_DB = []
   \<and> GetRatingStats empty_DB = Inl (Wrapf ''failed to get average rating''
        (EngineError ''sql: Scan error on column index 0: converting NULL to float64 is unsupported''))
   \<and> (\<exists>stats. GetRatingStats scenario_rated = Inr stats)"
  using GetRatingStats_empty [of empty_DB] GetRatingStats_empty [of scenario_rated]
  by (simp add: empty_DB_def rated_rows)

section \<open>Properties of conversation deletion\<close>

lemma conversation_exists_iff:
  "conversation_exists db cid \<longleftrightarrow> (\<exists>c\<in>set (conversations db). conv_ID c = cid)"
  by (auto simp add: conversation_exists_def find_None_iff)

lemma DeleteConversation_result:
  "DeleteConversation db cid =
     (if conversation_exists db cid
      then (None,
            db\<lparr>messages := filter (\<lambda>m. msg_ConversationID m \<noteq> cid) (messages db),
               conversations := filter (\<lambda>c. conv_ID c \<noteq> cid) (conversations db)\<rparr>)
      else (Some ErrConversationNotFound, db))"
proof (cases "conversation_exists db cid")
  case False
  then have "filter (\<lambda>c. conv_ID c = cid) (conversations db) = []"
    by (auto simp: conversation_exists_iff filter_empty_conv)
  then show ?thesis
    using False
    by (simp add: DeleteConversation_def Begin_def Rollback_def delete_conversations_where_def
        delete_messages_where_def Let_def)
next
  case True
  then have "filter (\<lambda>c. conv_ID c = cid) (conversations db) \<noteq> []"
    by (auto simp: conversation_exists_iff filter_empty_conv)
  then show ?thesis
    using True
    by (simp add: DeleteConversation_def Begin_def Commit_def delete_conversations_where_def
        delete_messages_where_def Let_def)
qed

lemma DeleteConversation_ratings:
  "ratings (snd (DeleteConversation db cid)) = ratings db
   \<and> conversation_tags (snd (DeleteConversation db cid)) = conversation_tags db"
  by (simp add: DeleteConversation_result)

text \<open>
  C5, at a store the operations of the package build: conversation 1 with its two
  messages, two ratings of the conversation and one rating of its first message, and a
  second conversation with one message. \<^verbatim>\<open>DeleteConversation\<close> of conversation 1 succeeds and
  removes the conversation and its two messages, and the three ratings are still stored:
  two refer to the deleted conversation and one to a deleted message. No cascade has run.
\<close>

theorem DeleteConversation_leaves_ratings:
  "conversation_exists scenario_full 1
   \<and> map (\<lambda>m. (msg_ID m, msg_ConversationID m)) (messages scenario_full) = [(1, 1), (2, 1), (3, 2)]
   \<and> fst (DeleteConversation scenario_full 1) = None
   \<and> map conv_ID (conversations (snd (DeleteConversation scenario_full 1))) = [2]
   \<and> map (\<lambda>m. (msg_ID m, msg_ConversationID m)) (messages (snd (DeleteConversation scenario_full 1)))
       = [(3, 2)]
   \<and> map (\<lambda>r. (rating_ID r, rating_ConversationID r, rating_MessageID r, rating_Rating r))
         (ratings (snd (DeleteConversation scenario_full 1)))
       = [(1, Some 1, None, 5), (2, Some 1, None, 3), (3, None, Some 1, 4)]"
  by code_simp

section \<open>Properties of the ratings table\<close>

lemma fold_max_ge: "seq \<le> fold max ids seq \<and> (\<forall>i\<in>set ids. i \<le> fold max ids (seq::int))"
proof (induction ids arbitrary: seq)
  case Nil
  then show ?case by simp
next
  case (Cons a ids)
  have "max a seq \<le> fold max ids (max a seq)"
    using Cons.IH [of "max a seq"] by blast
  then show ?case
    using Cons.IH [of "max a seq"] by auto
qed

lemma next_rowid_fresh: "i \<in> set ids \<Longrightarrow> i < next_rowid seq ids"
  using fold_max_ge [of seq ids] by (auto simp add: next_rowid_def)

lemma find_append_fresh: "\<forall>x\<in>set xs. \<not> P x \<Longrightarrow> P y \<Longrightarrow> find P (xs @ [y]) = Some y"
  by (induction xs) auto

lemma insert_rating_Inr:
  assumes "insert_rating db c m rating comment = Inr (db', row)"
  shows "one_parent row \<and> ratings db' = ratings db @ [row]
     \<and> rating_ID row = next_rowid (seq_ratings db) (map rating_ID (ratings db))
     \<and> rating_Rating row = rating"
  using assms
  by (auto simp add: insert_rating_def one_parent_def Let_def split: if_splits)

lemma insert_rating_rejects:
  assumes "(c = None) = (m = None)"
  shows "\<exists>err. insert_rating db c m rating comment = Inl err"
  using assms by (auto simp add: insert_rating_def)

lemma insert_rating_accepts:
  assumes "(c = None) \<noteq> (m = None)" and "1 \<le> rating" and "rating \<le> 5"
  shows "\<exists>row. insert_rating db c m rating comment =
        Inr (db\<lparr>ratings := ratings db @ [row], seq_ratings := rating_ID row\<rparr>, row)
     \<and> rating_ConversationID row = c \<and> rating_MessageID row = m \<and> rating_Rating row = rating"
proof -
  define row where "row = \<lparr>rating_ID = next_rowid (seq_ratings db) (map rating_ID (ratings db)),
      rating_ConversationID = c, rating_MessageID = m, rating_Rating = rating,
      rating_Comment = comment, rating_CreatedAt = current_timestamp db,
      rating_UpdatedAt = current_timestamp db\<rparr>"
  have sel: "rating_ID row = next_rowid (seq_ratings db) (map rating_ID (ratings db))"
    "rating_ConversationID row = c" "rating_MessageID row = m" "rating_Rating row = rating"
    by (simp_all add: row_def)
  have chk: "(c \<noteq> None \<and> m = None) \<or> (c = None \<and> m \<noteq> None)"
    using assms(1) by auto
  have "insert_rating db c m rating comment =
      Inr (db\<lparr>ratings := ratings db @ [row], seq_ratings := rating_ID row\<rparr>, row)"
    unfolding insert_rating_def Let_def sel(1) row_def [symmetric]
    using assms(2,3) chk by simp
  then show ?thesis
    using sel by blast
qed

lemma GetRating_inserted:
  assumes "insert_rating db c m rating comment = Inr (db', row)"
  shows "GetRating db' (rating_ID row) = Inr row"
proof -
  have r: "ratings db' = ratings db @ [row]"
    and i: "rating_ID row = next_rowid (seq_ratings db) (map rating_ID (ratings db))"
    using insert_rating_Inr [OF assms] by simp_all
  have "\<forall>x\<in>set (ratings db). rating_ID x \<noteq> rating_ID row"
    using next_rowid_fresh [of _ "map rating_ID (ratings db)" "seq_ratings db"] i by fastforce
  then have "find (\<lambda>r. rating_ID r = rating_ID row) (ratings db @ [row]) = Some row"
    by (intro find_append_fresh) simp_all
  then show ?thesis
    by (simp add: GetRating_def r)
qed

lemma insert_and_fetch_rating_cases:
  "(\<exists>err. insert_rating db c m rating comment = Inl err
        \<and> insert_and_fetch_rating db c m rating comment = (Inl (Wrapf ''failed to insert rating'' err), db))
   \<or> (\<exists>db' row. insert_rating db c m rating comment = Inr (db', row)
        \<and> insert_and_fetch_rating db c m rating comment = (Inr row, db'))"
proof (cases "insert_rating db c m rating comment")
  case (Inl err)
  then show ?thesis
    by (simp add: insert_and_fetch_rating_def)
next
  case (Inr p)
  obtain db' row where p: "p = (db', row)" by (cases p)
  show ?thesis
    using Inr p GetRating_inserted [of db c m rating comment db' row]
    by (simp add: insert_and_fetch_rating_def)
qed

lemma insert_and_fetch_rating_one_parent:
  assumes "list_all one_parent (ratings db)"
  shows "list_all one_parent (ratings (snd (insert_and_fetch_rating db c m rating comment)))"
  using insert_and_fetch_rating_cases [of db c m rating comment] assms
  by (auto dest: insert_rating_Inr)

lemma DeleteConversation_one_parent:
  assumes "list_all one_parent (ratings db)"
  shows "list_all one_parent (ratings (snd (DeleteConversation db cid)))"
  using assms by (simp add: DeleteConversation_ratings)

lemma one_parent_update:
  "one_parent (r\<lparr>rating_Rating := a, rating_Comment := b, rating_UpdatedAt := t\<rparr>) = one_parent r"
  by (simp add: one_parent_def)

text \<open>
  C9. The insert statement refuses a rating with both parent columns set or with neither,
  and the store is then the one before the call; with exactly one parent column set and a
  score from 1 to 5 it stores the row with the parent columns as given, whether or not
  the parent exists. The rows of the ratings table all have exactly one parent after
  every operation of the store that writes or deletes ratings or deletes a conversation,
  when they had before. \<^verbatim>\<open>Rating.Validate\<close> accepts only a rating with exactly one parent.
\<close>

theorem ratings_exactly_one_parent:
  "((conversationID = None) = (messageID = None) \<longrightarrow>
        (\<exists>err. insert_rating db conversationID messageID rating comment = Inl err)
      \<and> (\<exists>err. insert_and_fetch_rating db conversationID messageID rating comment = (Inl err, db)))
   \<and> ((conversationID = None) \<noteq> (messageID = None) \<and> 1 \<le> rating \<and> rating \<le> 5 \<longrightarrow>
        (\<exists>row. insert_and_fetch_rating db conversationID messageID rating comment =
             (Inr row, db\<lparr>ratings := ratings db @ [row], seq_ratings := rating_ID row\<rparr>)
           \<and> rating_ConversationID row = conversationID \<and> rating_MessageID row = messageID
           \<and> rating_Rating row = rating))
   \<and> (list_all one_parent (ratings db) \<longrightarrow>
        list_all one_parent (ratings (snd (insert_and_fetch_rating db conversationID messageID rating comment)))
      \<and> list_all one_parent (ratings (snd (CreateConversationRating db cid rating comment)))
      \<and> list_all one_parent (ratings (snd (CreateMessageRating db mid rating comment)))
      \<and> list_all one_parent (ratings (snd (UpdateRating db rid rating comment)))
      \<and> list_all one_parent (ratings (snd (DeleteRating db rid)))
      \<and> list_all one_parent (ratings (snd (DeleteConversation db cid))))
   \<and> (Rating_Validate r = None \<longrightarrow> one_parent r)"
proof (intro conjI impI)
  assume "Rating_Validate r = None"
  then show "one_parent r"
    by (auto simp add: Rating_Validate_def one_parent_def split: if_splits)
next
  assume a: "(conversationID = None) = (messageID = None)"
  show "\<exists>err. insert_rating db conversationID messageID rating comment = Inl err"
    by (rule insert_rating_rejects [OF a])
  then show "\<exists>err. insert_and_fetch_rating db conversationID messageID rating comment = (Inl err, db)"
    using insert_and_fetch_rating_cases [of db conversationID messageID rating comment] by auto
next
  assume "(conversationID = None) \<noteq> (messageID = None) \<and> 1 \<le> rating \<and> rating \<le> 5"
  then obtain row where
    i: "insert_rating db conversationID messageID rating comment =
        Inr (db\<lparr>ratings := ratings db @ [row], seq_ratings := rating_ID row\<rparr>, row)"
    and p: "rating_ConversationID row = conversationID" "rating_MessageID row = messageID"
      "rating_Rating row = rating"
    using insert_rating_accepts [of conversationID messageID rating db comment] by blast
  have "insert_and_fetch_rating db conversationID messageID rating comment =
      (Inr row, db\<lparr>ratings := ratings db @ [row], seq_ratings := rating_ID row\<rparr>)"
    using insert_and_fetch_rating_cases [of db conversationID messageID rating comment] i by auto
  then show "\<exists>row. insert_and_fetch_rating db conversationID messageID rating comment =
             (Inr row, db\<lparr>ratings := ratings db @ [row], seq_ratings := rating_ID row\<rparr>)
           \<and> rating_ConversationID row = conversationID \<and> rating_MessageID row = messageID
           \<and> rating_Rating row = rating"
    using p by blast
next
  assume inv: "list_all one_parent (ratings db)"
  show "list_all one_parent (ratings (snd (insert_and_fetch_rating db conversationID messageID rating comment)))"
    by (rule insert_and_fetch_rating_one_parent [OF inv])
  show "list_all one_parent (ratings (snd (CreateConversationRating db cid rating comment)))"
    using inv insert_and_fetch_rating_one_parent [OF inv]
    by (simp add: CreateConversationRating_def)
  show "list_all one_parent (ratings (snd (CreateMessageRating db mid rating comment)))"
    using inv insert_and_fetch_rating_one_parent [OF inv]
    by (simp add: CreateMessageRating_def)
  show "list_all one_parent (ratings (snd (UpdateRating db rid rating comment)))"
    using inv by (auto simp add: UpdateRating_def Let_def list_all_iff one_parent_update)
  show "list_all one_parent (ratings (snd (DeleteRating db rid)))"
    using inv by (simp add: DeleteRating_def Let_def list_all_iff)
  show "list_all one_parent (ratings (snd (DeleteConversation db cid)))"
    by (rule DeleteConversation_one_parent [OF inv])
qed

lemma both_parents_rejected:
  "insert_and_fetch_rating scenario_response (Some 1) (Some 1) 5 None
     = (Inl (Wrapf ''failed to insert rating'' (EngineError ''CHECK constraint failed: ratings'')), scenario_response)"
  by code_simp

lemma no_parent_rejected:
  "insert_and_fetch_rating scenario_response None None 5 None
     = (Inl (Wrapf ''failed to insert rating'' (EngineError ''CHECK constraint failed: ratings'')), scenario_response)"
  by code_simp

lemma scenario_response_no_ratings: "ratings scenario_response = []"
  by code_simp

lemma orphan_rating_stored:
  "\<not> conversation_exists scenario_full 999"
  "map (\<lambda>r. (rating_ID r, rating_ConversationID r, rating_MessageID r, rating_Rating r))
     (ratings (snd (CreateConversationRating scenario_full 999 2 None)))
   = [(1, Some 1, None, 5), (2, Some 1, None, 3), (3, None, Some 1, 4), (4, Some 999, None, 2)]"
  by code_simp+

theorem ratings_exactly_one_parent_witness:
  "(\<exists>err. insert_and_fetch_rating scenario_response (Some 1) (Some 1) 5 None = (Inl err, scenario_response))
   \<and> (\<exists>err. insert_and_fetch_rating scenario_response None None 5 None = (Inl err, scenario_response))
   \<and> list_all one_parent (ratings scenario_response)
   \<and> list_all one_parent (ratings (snd (CreateConversationRating scenario_response 1 5 None)))
   \<and> ratings (snd (CreateConversationRating scenario_response 1 5 None)) \<noteq> []
   \<and> list_all one_parent (ratings (snd (CreateMessageRating scenario_response 1 4 None)))
   \<and> ratings (snd (CreateMessageRating scenario_response 1 4 None)) \<noteq> []
   \<and> \<not> conversation_exists scenario_full 999
   \<and> map (\<lambda>r. (rating_ID r, rating_ConversationID r, rating_MessageID r, rating_Rating r))
        (ratings (snd (CreateConversationRating scenario_full 999 2 None)))
      = [(1, Some 1, None, 5), (2, Some 1, None, 3), (3, None, Some 1, 4), (4, Some 999, None, 2)]
   \<and> (\<exists>row. insert_and_fetch_rating scenario_full (Some 999) None 2 None =
          (Inr row, scenario_full\<lparr>ratings := ratings scenario_full @ [row], seq_ratings := rating_ID row\<rparr>)
        \<and> rating_ConversationID row = Some 999 \<and> rating_MessageID row = None
        \<and> rating_Rating row = 2)"
proof -
  have inv: "list_all one_parent (ratings scenario_response)"
    by (simp add: scenario_response_no_ratings)
  have n1: "ratings (snd (CreateConversationRating scenario_response 1 5 None)) \<noteq> []"
    by code_simp
  have n2: "ratings (snd (CreateMessageRating scenario_response 1 4 None)) \<noteq> []"
    by code_simp
  have a: "\<exists>err. insert_and_fetch_rating scenario_response (Some 1) (Some 1) 5 None = (Inl err, scenario_response)"
    using ratings_exactly_one_parent
      [where conversationID = "Some 1" and messageID = "Some 1" and db = scenario_response
        and rating = 5 and comment = None]
    by simp
  have b: "\<exists>err. insert_and_fetch_rating scenario_response None None 5 None = (Inl err, scenario_response)"
    using ratings_exactly_one_parent
      [where conversationID = None and messageID = None and db = scenario_response
        and rating = 5 and comment = None]
    by simp
  have c: "list_all one_parent (ratings (snd (CreateConversationRating scenario_response 1 5 None)))"
    "list_all one_parent (ratings (snd (CreateMessageRating scenario_response 1 4 None)))"
    using ratings_exactly_one_parent
      [where db = scenario_response and rating = 5 and comment = None and cid = 1]
      ratings_exactly_one_parent
      [where db = scenario_response and rating = 4 and comment = None and mid = 1] inv
    by simp_all
  have d: "\<exists>row. insert_and_fetch_rating scenario_full (Some 999) None 2 None =
          (Inr row, scenario_full\<lparr>ratings := ratings scenario_full @ [row], seq_ratings := rating_ID row\<rparr>)
        \<and> rating_ConversationID row = Some 999 \<and> rating_MessageID row = None
        \<and> rating_Rating row = 2"
    using ratings_exactly_one_parent
      [where conversationID = "Some 999" and messageID = None and db = scenario_full
        and rating = 2 and comment = None]
    by simp
  show ?thesis
    by (intro conjI a b c d inv n1 n2 orphan_rating_stored)
qed

section \<open>Properties of message creation and the conversation counters\<close>

lemma update_conversation_timestamp_fix:
  assumes "\<forall>c\<in>set (conversations d). conv_ID c = conv_ID NEW \<longrightarrow> conv_UpdatedAt c = current_timestamp d"
  shows "update_conversation_timestamp d NEW = d"
proof -
  have "map (\<lambda>c. if conv_ID c = conv_ID NEW then c\<lparr>conv_UpdatedAt := current_timestamp d\<rparr> else c)
          (conversations d) = conversations d"
    using assms by (intro map_idI) auto
  then show ?thesis
    by (simp add: update_conversation_timestamp_def)
qed

lemma fold_timestamp_fix:
  assumes "\<forall>c\<in>set (conversations d). conv_ID c = cid \<longrightarrow> conv_UpdatedAt c = current_timestamp d"
    and "\<forall>c\<in>set cs. conv_ID (f c) = cid"
  shows "fold (\<lambda>c d. update_conversation_timestamp d (f c)) cs d = d"
  using assms
proof (induction cs)
  case Nil
  then show ?case by simp
next
  case (Cons a cs)
  have "update_conversation_timestamp d (f a) = d"
    using Cons.prems by (intro update_conversation_timestamp_fix) simp
  then show ?case
    using Cons by simp
qed

lemma update_conversation_stats_result:
  "update_conversation_stats db NEW =
     db\<lparr>conversations :=
          map (\<lambda>c. if conv_ID c = msg_ConversationID NEW then stats_SET db NEW c else c)
            (conversations db)\<rparr>"
proof -
  let ?d1 = "db\<lparr>conversations :=
          map (\<lambda>c. if conv_ID c = msg_ConversationID NEW then stats_SET db NEW c else c)
            (conversations db)\<rparr>"
  have a: "\<forall>c\<in>set (conversations ?d1). conv_ID c = msg_ConversationID NEW \<longrightarrow>
      conv_UpdatedAt c = current_timestamp ?d1"
    by (auto simp add: stats_SET_def)
  have b: "\<forall>c\<in>set (filter (\<lambda>c. conv_ID c = msg_ConversationID NEW) (conversations db)).
      conv_ID (stats_SET db NEW c) = msg_ConversationID NEW"
    by (simp add: stats_SET_def)
  show ?thesis
    unfolding update_conversation_stats_def Let_def
    by (rule fold_timestamp_fix [OF a b])
qed

lemma insert_message_Inr:
  assumes "insert_message db cid ty content n tc et = Inr (db', row)"
  shows "row = \<lparr>msg_ID = next_rowid (seq_messages db) (map msg_ID (messages db)),
               msg_ConversationID = cid, msg_MessageType = ty, msg_Content = content,
               msg_CharacterCount = n, msg_Timestamp = current_timestamp db,
               msg_ToolCalls = tc, msg_ExecutionTime = et\<rparr>
     \<and> messages db' = messages db @ [row]
     \<and> conversations db' =
          map (\<lambda>c. if conv_ID c = cid then stats_SET db row c else c) (conversations db)
     \<and> (ty = ''prompt'' \<or> ty = ''response'')"
  using assms
  by (auto simp add: insert_message_def update_conversation_stats_result stats_SET_def Let_def
      split: if_splits)

lemma insert_message_accepts:
  assumes "ty = ''prompt'' \<or> ty = ''response''"
  shows "\<exists>p. insert_message db cid ty content n tc et = Inr p"
  using assms by (auto simp add: insert_message_def Let_def)

lemma insert_message_rejects:
  assumes "ty \<noteq> ''prompt''" and "ty \<noteq> ''response''"
  shows "\<exists>err. insert_message db cid ty content n tc et = Inl err"
  using assms by (simp add: insert_message_def)

lemma GetMessage_inserted:
  assumes "insert_message db cid ty content n tc et = Inr (db', row)"
  shows "GetMessage db' (msg_ID row) = Inr row"
proof -
  have r: "messages db' = messages db @ [row]"
    and i: "msg_ID row = next_rowid (seq_messages db) (map msg_ID (messages db))"
    using insert_message_Inr [OF assms] by simp_all
  have "\<forall>x\<in>set (messages db). msg_ID x \<noteq> msg_ID row"
    using next_rowid_fresh [of _ "map msg_ID (messages db)" "seq_messages db"] i by fastforce
  then have "find (\<lambda>m. msg_ID m = msg_ID row) (messages db @ [row]) = Some row"
    by (intro find_append_fresh) simp_all
  then show ?thesis
    by (simp add: GetMessage_def r)
qed

lemma CreateMessage_cases:
  "(\<exists>err. insert_message db cid ty content (int (length content)) tc et = Inl err
        \<and> CreateMessage db cid ty content tc et = (Inl (Wrapf ''failed to insert message'' err), db))
   \<or> (\<exists>db' row. insert_message db cid ty content (int (length content)) tc et = Inr (db', row)
        \<and> CreateMessage db cid ty content tc et = (Inr row, db'))"
proof (cases "insert_message db cid ty content (int (length content)) tc et")
  case (Inl err)
  then show ?thesis
    by (simp add: CreateMessage_def Let_def)
next
  case (Inr p)
  obtain db' row where p: "p = (db', row)" by (cases p)
  show ?thesis
    using Inr p GetMessage_inserted [of db cid ty content "int (length content)" tc et db' row]
    by (simp add: CreateMessage_def Let_def)
qed

lemma CreateMessage_accepts:
  assumes "ty = ''prompt'' \<or> ty = ''response''"
  shows "\<exists>msg. fst (CreateMessage db cid ty content tc et) = Inr msg"
  using CreateMessage_cases [of db cid ty content tc et]
    insert_message_accepts [OF assms, of db cid content "int (length content)" tc et]
  by auto

lemma CreateMessage_rejects:
  assumes "ty \<noteq> ''prompt''" and "ty \<noteq> ''response''"
  shows "\<exists>err. CreateMessage db cid ty content tc et = (Inl err, db)"
  using CreateMessage_cases [of db cid ty content tc et]
    insert_message_rejects [OF assms, of db cid content "int (length content)" tc et]
  by auto

lemma CreateMessage_stored:
  assumes "CreateMessage db cid ty content tc et = (res, db')"
  shows "(\<forall>msg. res = Inr msg \<longrightarrow>
            msg_Content msg = content \<and> msg_CharacterCount msg = int (length content)
            \<and> messages db' = messages db @ [msg])
       \<and> ((\<exists>err. res = Inl err) \<longrightarrow> db' = db)
       \<and> (character_counts_consistent db \<longrightarrow> character_counts_consistent db')"
  using CreateMessage_cases [of db cid ty content tc et] assms
  by (auto simp add: character_counts_consistent_def dest!: insert_message_Inr)

text \<open>
  C7. \<^verbatim>\<open>CreateMessage\<close> has no count parameter. With the type \<^verbatim>\<open>prompt\<close> or \<^verbatim>\<open>response\<close> it
  stores a message, whether or not a conversation with the given id exists; with any
  other type it returns an error. The message it returns is the row it appended to the
  messages table, with the content given and a character count equal to the length of
  that content. A failed call leaves the store as it was, and deleting a conversation
  only removes messages, so the stored count of every message stays equal to the length
  of its stored content.
\<close>

theorem CreateMessage_character_count:
  assumes "CreateMessage db cid ty content tc et = (res, db')"
  shows "(ty = ''prompt'' \<or> ty = ''response'' \<longrightarrow> (\<exists>msg. res = Inr msg))
       \<and> (ty \<noteq> ''prompt'' \<and> ty \<noteq> ''response'' \<longrightarrow> (\<exists>err. res = Inl err))
       \<and> (\<forall>msg. res = Inr msg \<longrightarrow>
            msg_Content msg = content \<and> msg_CharacterCount msg = int (length content)
            \<and> messages db' = messages db @ [msg])
       \<and> ((\<exists>err. res = Inl err) \<longrightarrow> db' = db)
       \<and> (character_counts_consistent db \<longrightarrow>
            character_counts_consistent db'
            \<and> character_counts_consistent (snd (DeleteConversation db deleted)))"
proof -
  have d: "character_counts_consistent (snd (DeleteConversation db deleted))"
    if "character_counts_consistent db"
    using that by (simp add: character_counts_consistent_def DeleteConversation_result list_all_iff)
  have a: "\<exists>msg. res = Inr msg" if "ty = ''prompt'' \<or> ty = ''response''"
    using CreateMessage_accepts [OF that, of db cid content tc et] assms by simp
  have b: "\<exists>err. res = Inl err" if "ty \<noteq> ''prompt'' \<and> ty \<noteq> ''response''"
    using CreateMessage_rejects [of ty db cid content tc et] that assms by auto
  show ?thesis
    using a b d CreateMessage_stored [OF assms] by blast
qed

lemma scenario_prompt_created:
  "CreateMessage scenario_conversation 1 ''prompt'' ''hello'' None None =
     (Inr \<lparr>msg_ID = 1, msg_ConversationID = 1, msg_MessageType = ''prompt'', msg_Content = ''hello'',
           msg_CharacterCount = 5, msg_Timestamp = 0, msg_ToolCalls = None, msg_ExecutionTime = None\<rparr>,
      scenario_prompt)"
  by code_simp

lemma scenario_conversation_messages: "messages scenario_conversation = []"
  by code_simp

lemma orphan_message_call:
  "CreateMessage scenario_full 999 ''prompt'' ''x'' None None =
     (fst (CreateMessage scenario_full 999 ''prompt'' ''x'' None None),
      snd (CreateMessage scenario_full 999 ''prompt'' ''x'' None None))"
  by simp

lemma orphan_message_created:
  "\<not> conversation_exists scenario_full 999"
  "map (\<lambda>m. (msg_ID m, msg_ConversationID m, msg_Content m, msg_CharacterCount m))
     (messages (snd (CreateMessage scenario_full 999 ''prompt'' ''x'' None None)))
   = [(1, 1, ''hello'', 5), (2, 1, ''hi there'', 8), (3, 2, ''other'', 5), (4, 999, ''x'', 1)]"
  by code_simp+

theorem CreateMessage_character_count_witness:
  "CreateMessage scenario_conversation 1 ''prompt'' ''hello'' None None =
     (Inr \<lparr>msg_ID = 1, msg_ConversationID = 1, msg_MessageType = ''prompt'', msg_Content = ''hello'',
           msg_CharacterCount = 5, msg_Timestamp = 0, msg_ToolCalls = None, msg_ExecutionTime = None\<rparr>,
      scenario_prompt)
   \<and> character_counts_consistent scenario_conversation
   \<and> character_counts_consistent scenario_prompt
   \<and> map msg_CharacterCount (messages scenario_prompt) = [5]
   \<and> \<not> conversation_exists scenario_full 999
   \<and> (\<exists>msg. fst (CreateMessage scenario_full 999 ''prompt'' ''x'' None None) = Inr msg
         \<and> msg_CharacterCount msg = 1)
   \<and> map (\<lambda>m. (msg_ID m, msg_ConversationID m, msg_Content m, msg_CharacterCount m))
        (messages (snd (CreateMessage scenario_full 999 ''prompt'' ''x'' None None)))
      = [(1, 1, ''hello'', 5), (2, 1, ''hi there'', 8), (3, 2, ''other'', 5), (4, 999, ''x'', 1)]"
proof -
  have c: "character_counts_consistent scenario_conversation"
    by (simp add: character_counts_consistent_def scenario_conversation_messages)
  have p: "CreateMessage scenario_conversation 1 ''prompt'' ''hello'' None None =
     (Inr \<lparr>msg_ID = 1, msg_ConversationID = 1, msg_MessageType = ''prompt'', msg_Content = ''hello'',
           msg_CharacterCount = 5, msg_Timestamp = 0, msg_ToolCalls = None, msg_ExecutionTime = None\<rparr>,
      scenario_prompt)
   \<and> character_counts_consistent scenario_conversation
   \<and> character_counts_consistent scenario_prompt
   \<and> map msg_CharacterCount (messages scenario_prompt) = [5]"
    using CreateMessage_character_count [OF scenario_prompt_created] c
    by (simp add: scenario_prompt_created scenario_conversation_messages)
  have o: "\<exists>msg. fst (CreateMessage scenario_full 999 ''prompt'' ''x'' None None) = Inr msg
         \<and> msg_CharacterCount msg = 1"
    using CreateMessage_character_count [OF orphan_message_call, where deleted = 0]
    by auto
  show ?thesis
    using p o orphan_message_created by blast
qed

lemma CreateMessage_counters:
  assumes "CreateMessage db cid ty content tc et = (Inr msg, db')"
  shows "conversations db' =
     map (\<lambda>c. if conv_ID c = cid
               then c\<lparr>conv_PromptCount := conv_PromptCount c + 1,
                      conv_TotalCharacters := conv_TotalCharacters c + int (length content),
                      conv_UpdatedAt := current_timestamp db\<rparr>
               else c) (conversations db)
     \<and> messages db' = messages db @ [msg]
     \<and> msg_ConversationID msg = cid \<and> msg_MessageType msg = ty \<and> msg_Content msg = content"
  using CreateMessage_cases [of db cid ty content tc et] assms
  by (auto simp add: stats_SET_def dest!: insert_message_Inr)

lemma find_map_same_key:
  assumes "\<And>c. k (f c) = k c"
  shows "find (\<lambda>c. k c = x) (map f cs) = map_option f (find (\<lambda>c. k c = x) cs)"
  using assms by (induction cs) auto

lemma CreateMessage_reread:
  assumes "CreateMessage db cid ty content tc et = (Inr msg, db')"
    and "GetConversation db cid = Inr c"
  shows "GetConversation db' cid =
       Inr (c\<lparr>conv_PromptCount := conv_PromptCount c + 1,
              conv_TotalCharacters := conv_TotalCharacters c + int (length content),
              conv_UpdatedAt := current_timestamp db\<rparr>)
     \<and> prompt_messages db' cid = prompt_messages db cid + (if ty = ''prompt'' then 1 else 0)
     \<and> content_characters db' cid = content_characters db cid + int (length content)"
proof -
  note r = CreateMessage_counters [OF assms(1)]
  have f: "find (\<lambda>c. conv_ID c = cid) (conversations db) = Some c"
    using assms(2) by (simp add: GetConversation_def split: option.splits)
  have i: "conv_ID c = cid"
    using f by (auto dest: find_Some_iff [THEN iffD1])
  let ?f = "\<lambda>c. if conv_ID c = cid
               then c\<lparr>conv_PromptCount := conv_PromptCount c + 1,
                      conv_TotalCharacters := conv_TotalCharacters c + int (length content),
                      conv_UpdatedAt := current_timestamp db\<rparr>
               else c"
  have "find (\<lambda>c. conv_ID c = cid) (map ?f (conversations db))
      = map_option ?f (find (\<lambda>c. conv_ID c = cid) (conversations db))"
    by (rule find_map_same_key) simp
  then have "GetConversation db' cid = Inr (?f c)"
    using r f by (simp add: GetConversation_def)
  then show ?thesis
    using r i by (simp add: prompt_messages_def content_characters_def)
qed

text \<open>
  C1, at the scenario of the specification. The after-insert trigger adds one to
  \<^verbatim>\<open>prompt_count\<close> for every message, whatever its type: re-read after the prompt
  \<^verbatim>\<open>hello\<close> and the response \<^verbatim>\<open>hi there\<close>, the conversation has \<^verbatim>\<open>prompt_count\<close> 2 while one
  of its messages is a prompt; \<^verbatim>\<open>total_characters\<close> is 13, the sum of the content lengths.
  \<^verbatim>\<open>AddMessage\<close> of the models package, given the same two messages, counts one prompt.
\<close>

theorem prompt_count_counts_responses:
  "GetConversation scenario_response 1 =
     Inr \<lparr>conv_ID = 1, conv_SessionID = ''s1'', conv_Title = None, conv_CreatedAt = 0,
          conv_UpdatedAt = 0, conv_PromptCount = 2, conv_TotalCharacters = 13,
          conv_WorkingDirectory = None, conv_TranscriptPath = None\<rparr>
   \<and> prompt_messages scenario_response 1 = 1
   \<and> content_characters scenario_response 1 = 13
   \<and> conv_PromptCount (foldl (AddMessage 0) model_s1 (messages scenario_response)) = 1
   \<and> conv_TotalCharacters (foldl (AddMessage 0) model_s1 (messages scenario_response)) = 13"
  by code_simp


section \<open>Properties of get-or-create\<close>

lemma GetConversationBySessionID_error:
  "GetConversationBySessionID db sid = Inl err \<Longrightarrow>
     err = ErrConversationNotFound \<and> (\<forall>c\<in>set (conversations db). conv_SessionID c \<noteq> sid)"
  by (auto simp add: GetConversationBySessionID_def find_None_iff split: option.splits)

lemma CreateConversation_result:
  "\<exists>row. CreateConversation db sid title wd tp =
       (Inr row, db\<lparr>conversations := conversations db @ [row], seq_conversations := conv_ID row\<rparr>)
     \<and> conv_SessionID row = sid"
proof -
  let ?rowid = "next_rowid (seq_conversations db) (map conv_ID (conversations db))"
  let ?row = "\<lparr>conv_ID = ?rowid, conv_SessionID = sid, conv_Title = title,
                 conv_CreatedAt = current_timestamp db, conv_UpdatedAt = current_timestamp db,
                 conv_PromptCount = 0, conv_TotalCharacters = 0,
                 conv_WorkingDirectory = wd, conv_TranscriptPath = tp\<rparr>"
  let ?db' = "db\<lparr>conversations := conversations db @ [?row], seq_conversations := ?rowid\<rparr>"
  have "\<forall>x\<in>set (conversations db). conv_ID x \<noteq> ?rowid"
    using next_rowid_fresh [of _ "map conv_ID (conversations db)" "seq_conversations db"] by fastforce
  then have "find (\<lambda>c. conv_ID c = ?rowid) (conversations db @ [?row]) = Some ?row"
    by (intro find_append_fresh) simp_all
  then have "GetConversation ?db' ?rowid = Inr ?row"
    by (simp add: GetConversation_def)
  then have "CreateConversation db sid title wd tp = (Inr ?row, ?db')"
    by (simp add: CreateConversation_def insert_conversation_def Let_def)
  then show ?thesis
    by simp
qed

text \<open>
  C6. Two calls of \<^verbatim>\<open>GetOrCreateConversation\<close> with the same session identifier, one
  after the other, both succeed with the same conversation id, and the second call leaves
  the store as the first left it. When the session had a conversation before the first
  call nothing is inserted; when it had none, the first call inserts one row, the only
  row of that session.
\<close>

theorem GetOrCreateConversation_idempotent:
  assumes "GetOrCreateConversation db sessionID data = (r1, db1)"
    and "GetOrCreateConversation db1 sessionID data' = (r2, db2)"
  shows "\<exists>cid. r1 = Inr cid \<and> r2 = Inr cid \<and> db2 = db1
     \<and> GetConversationBySessionID db1 sessionID \<noteq> Inl ErrConversationNotFound
     \<and> (case GetConversationBySessionID db sessionID of
           Inr conv \<Rightarrow> db1 = db \<and> cid = conv_ID conv
         | Inl err \<Rightarrow>
             length (conversations db1) = length (conversations db) + 1
             \<and> length (filter (\<lambda>c. conv_SessionID c = sessionID) (conversations db1)) = 1)"
proof (cases "GetConversationBySessionID db sessionID")
  case (Inr conv)
  then show ?thesis
    using assms by (auto simp add: GetOrCreateConversation_def)
next
  case (Inl err)
  note e = GetConversationBySessionID_error [OF Inl]
  let ?wd = "ExtractStringFromData data ''cwd''"
  let ?tp = "ExtractStringFromData data ''transcript_path''"
  obtain row where
    c: "CreateConversation db sessionID None ?wd ?tp =
       (Inr row, db\<lparr>conversations := conversations db @ [row], seq_conversations := conv_ID row\<rparr>)"
    and s: "conv_SessionID row = sessionID"
    using CreateConversation_result [of db sessionID None ?wd ?tp] by blast
  have first: "r1 = Inr (conv_ID row)"
    "db1 = db\<lparr>conversations := conversations db @ [row], seq_conversations := conv_ID row\<rparr>"
    using assms(1) Inl e c by (simp_all add: GetOrCreateConversation_def Let_def)
  have "find (\<lambda>c. conv_SessionID c = sessionID) (conversations db @ [row]) = Some row"
    using e s by (intro find_append_fresh) simp_all
  then have g: "GetConversationBySessionID db1 sessionID = Inr row"
    by (simp add: GetConversationBySessionID_def first(2))
  then have second: "r2 = Inr (conv_ID row)" "db2 = db1"
    using assms(2) by (simp_all add: GetOrCreateConversation_def)
  have "filter (\<lambda>c. conv_SessionID c = sessionID) (conversations db) = []"
    using e by (simp add: filter_empty_conv)
  then have "length (filter (\<lambda>c. conv_SessionID c = sessionID) (conversations db1)) = 1"
    using s by (simp add: first(2))
  then show ?thesis
    using first second g Inl by simp
qed

lemma get_or_create_first:
  "GetOrCreateConversation scenario_response ''s2'' [''cwd'' \<mapsto> JString ''/tmp''] =
     (Inr 2, snd (GetOrCreateConversation scenario_response ''s2'' [''cwd'' \<mapsto> JString ''/tmp'']))"
  by code_simp

lemma get_or_create_second:
  "GetOrCreateConversation (snd (GetOrCreateConversation scenario_response ''s2'' [''cwd'' \<mapsto> JString ''/tmp'']))
       ''s2'' Map.empty =
     (Inr 2, snd (GetOrCreateConversation scenario_response ''s2'' [''cwd'' \<mapsto> JString ''/tmp'']))"
  by code_simp

lemma get_or_create_sessions:
  "map conv_SessionID (conversations scenario_response) = [''s1'']"
  "map conv_SessionID
     (conversations (snd (GetOrCreateConversation scenario_response ''s2'' [''cwd'' \<mapsto> JString ''/tmp''])))
     = [''s1'', ''s2'']"
  by code_simp+

theorem GetOrCreateConversation_idempotent_witness:
  "GetOrCreateConversation scenario_response ''s2'' [''cwd'' \<mapsto> JString ''/tmp''] =
     (Inr 2, snd (GetOrCreateConversation scenario_response ''s2'' [''cwd'' \<mapsto> JString ''/tmp'']))
   \<and> GetOrCreateConversation (snd (GetOrCreateConversation scenario_response ''s2'' [''cwd'' \<mapsto> JString ''/tmp'']))
       ''s2'' Map.empty =
     (Inr 2, snd (GetOrCreateConversation scenario_response ''s2'' [''cwd'' \<mapsto> JString ''/tmp'']))
   \<and> map conv_SessionID (conversations scenario_response) = [''s1'']
   \<and> map conv_SessionID
        (conversations (snd (GetOrCreateConversation scenario_response ''s2'' [''cwd'' \<mapsto> JString ''/tmp''])))
      = [''s1'', ''s2'']"
  using GetOrCreateConversation_idempotent [OF get_or_create_first get_or_create_second]
    get_or_create_first get_or_create_second get_or_create_sessions
  by simp


section \<open>Properties of the migration runner\<close>

lemma count_version_zero:
  "count_version eng db version = Inr 0 \<longleftrightarrow>
     \<not> fails eng OpQuery db \<and> (\<exists>rows. schema_migrations db = Some rows \<and> version \<notin> set rows)"
  by (auto simp add: count_version_def count_list_0_iff split: option.splits)

lemma apply_migration_result:
  assumes "schema_migrations db = Some rows" and "version \<notin> set rows"
  shows "apply_migration eng fs file version db =
     (case ReadFile fs file of
        None \<Rightarrow> (Some (Wrapf (''failed to read migration file '' @ file) (EngineError ''read failed'')), db)
      | Some content \<Rightarrow>
          if fails eng OpBegin db
          then (Some (Wrapf ''failed to begin migration transaction'' (EngineError ''begin failed'')), db)
          else if \<not> fst (exec_script eng content (schema db))
          then (Some (Wrapf (''failed to execute migration '' @ file) (EngineError ''statement failed'')), db)
          else if fails eng OpInsert (db\<lparr>schema := snd (exec_script eng content (schema db))\<rparr>)
          then (Some (Wrapf (''failed to record migration '' @ file) (EngineError ''insert failed'')), db)
          else if fails eng OpCommit (applied_state eng content version db)
          then (Some (Wrapf (''failed to commit migration '' @ file) (EngineError ''commit failed'')), db)
          else (None, applied_state eng content version db))"
  using assms
  by (auto simp add: apply_migration_def tx_Exec_script_def tx_Exec_insert_def Begin_def Rollback_def
      Commit_def applied_state_def recorded_def Let_def split: option.splits prod.splits bool.splits)


lemma migrate_file_unrecorded:
  assumes "count_version eng db (extractVersionFromFilename file) = Inr 0"
  shows "migrate_file eng fs file db =
     (case ReadFile fs file of
        None \<Rightarrow> (Some (Wrapf (''failed to read migration file '' @ file) (EngineError ''read failed'')), db)
      | Some content \<Rightarrow>
          if fails eng OpBegin db
          then (Some (Wrapf ''failed to begin migration transaction'' (EngineError ''begin failed'')), db)
          else if \<not> fst (exec_script eng content (schema db))
          then (Some (Wrapf (''failed to execute migration '' @ file) (EngineError ''statement failed'')), db)
          else if fails eng OpInsert (db\<lparr>schema := snd (exec_script eng content (schema db))\<rparr>)
          then (Some (Wrapf (''failed to record migration '' @ file) (EngineError ''insert failed'')), db)
          else if fails eng OpCommit (applied_state eng content (extractVersionFromFilename file) db)
          then (Some (Wrapf (''failed to commit migration '' @ file) (EngineError ''commit failed'')), db)
          else (None, applied_state eng content (extractVersionFromFilename file) db))"
proof -
  obtain rows where r: "schema_migrations db = Some rows" "extractVersionFromFilename file \<notin> set rows"
    using assms by (auto simp add: count_version_zero)
  show ?thesis
    using assms by (simp add: migrate_file_def Let_def apply_migration_result [OF r])
qed

lemma migrate_file_recorded_skip:
  assumes "count_version eng db (extractVersionFromFilename file) = Inr n" and "n > 0"
  shows "migrate_file eng fs file db = (None, db)"
  using assms by (simp add: migrate_file_def Let_def)

lemma migrate_file_error_unchanged:
  assumes "migrate_file eng fs file db = (Some e, db')"
  shows "db' = db"
proof (cases "count_version eng db (extractVersionFromFilename file)")
  case (Inl err)
  then show ?thesis
    using assms by (simp add: migrate_file_def Let_def)
next
  case (Inr n)
  show ?thesis
  proof (cases "n = 0")
    case True
    then show ?thesis
      using assms Inr by (auto simp add: migrate_file_unrecorded split: option.splits if_splits)
  next
    case False
    then show ?thesis
      using assms Inr by (simp add: migrate_file_def Let_def)
  qed
qed

lemma migrate_files_abort:
  assumes "migrate_files eng fs files db = (Some e, db')"
  shows "\<exists>pre file post. files = pre @ file # post
     \<and> migrate_files eng fs pre db = (None, db')
     \<and> migrate_file eng fs file db' = (Some e, db')"
  using assms
proof (induction files arbitrary: db)
  case Nil
  then show ?case by simp
next
  case (Cons f files)
  obtain r d where step: "migrate_file eng fs f db = (r, d)"
    by (cases "migrate_file eng fs f db")
  show ?case
  proof (cases r)
    case None
    then have "migrate_files eng fs files d = (Some e, db')"
      using Cons.prems step by simp
    then obtain pre g post where p: "files = pre @ g # post"
      "migrate_files eng fs pre d = (None, db')" "migrate_file eng fs g db' = (Some e, db')"
      using Cons.IH by blast
    have "f # files = (f # pre) @ g # post" "migrate_files eng fs (f # pre) db = (None, db')"
      using p step None by simp_all
    then show ?thesis
      using p(3) by blast
  next
    case (Some e')
    then have "e' = e" "d = db'"
      using Cons.prems step by simp_all
    moreover have "d = db"
      using step Some migrate_file_error_unchanged by blast
    ultimately have "f # files = [] @ f # files" "migrate_files eng fs [] db = (None, db')"
      "migrate_file eng fs f db' = (Some e, db')"
      using step Some by simp_all
    then show ?thesis
      by blast
  qed
qed

lemma apply_migration_with_files:
  "apply_migration eng (with_files fs fl) f v db = apply_migration eng fs f v db"
  by (simp add: apply_migration_def with_files_def)

lemma migrate_file_with_files:
  "migrate_file eng (with_files fs fl) f db = migrate_file eng fs f db"
  unfolding migrate_file_def apply_migration_with_files ..

lemma migrate_files_with_files:
  "migrate_files eng (with_files fs fl) files db = migrate_files eng fs files db"
  by (induction files arbitrary: db)
    (auto simp add: migrate_file_with_files split: prod.splits option.splits)

lemma RunMigrations_with_files:
  "RunMigrations eng (with_files fs files) dir db =
     (if fails eng OpCreateTable db
      then (Some (Wrapf ''failed to create migrations table'' (EngineError ''create failed'')), db)
      else migrate_files eng fs files (db\<lparr>schema_migrations := Some (recorded db)\<rparr>))"
proof -
  have g: "Glob (with_files fs files) p = Some files" for p
    by (simp add: with_files_def)
  show ?thesis
    unfolding RunMigrations_def Let_def g recorded_def [symmetric]
    by (simp add: migrate_files_with_files)
qed

lemma migrate_files_append:
  "migrate_files eng fs (xs @ ys) db =
     (case migrate_files eng fs xs db of
        (Some e, d) \<Rightarrow> (Some e, d)
      | (None, d) \<Rightarrow> migrate_files eng fs ys d)"
  by (induction xs arbitrary: db) (auto split: prod.splits option.splits)

lemma migrate_files_single: "migrate_files eng fs [f] db = migrate_file eng fs f db"
  by (cases "migrate_file eng fs f db") (auto split: option.splits)

lemma RunMigrations_next_file:
  assumes "RunMigrations eng (with_files fs pre) dir db = (None, d)"
  shows "RunMigrations eng (with_files fs (pre @ [f])) dir db = migrate_file eng fs f d"
proof -
  have ok: "\<not> fails eng OpCreateTable db"
    using assms by (auto simp add: RunMigrations_with_files split: if_splits)
  then have "migrate_files eng fs pre (db\<lparr>schema_migrations := Some (recorded db)\<rparr>) = (None, d)"
    using assms by (simp add: RunMigrations_with_files)
  then have "migrate_files eng fs (pre @ [f]) (db\<lparr>schema_migrations := Some (recorded db)\<rparr>)
      = migrate_files eng fs [f] d"
    by (simp only: migrate_files_append prod.case option.case)
  then show ?thesis
    using ok by (simp only: RunMigrations_with_files migrate_files_single if_False)
qed

lemma RunMigrations_aborted:
  assumes "RunMigrations eng (with_files fs pre) dir db = (Some e, d)"
  shows "RunMigrations eng (with_files fs (pre @ rest)) dir db = (Some e, d)"
proof (cases "fails eng OpCreateTable db")
  case True
  then show ?thesis
    using assms by (simp add: RunMigrations_with_files)
next
  case False
  then have "migrate_files eng fs pre (db\<lparr>schema_migrations := Some (recorded db)\<rparr>) = (Some e, d)"
    using assms by (simp add: RunMigrations_with_files)
  then show ?thesis
    using False by (simp add: RunMigrations_with_files migrate_files_append)
qed

text \<open>
  C3. Let the run over the files \<open>pre\<close> return no error and leave the database \<open>d\<close>, and
  let the version of \<open>path\<close> not be recorded in \<open>d\<close>. The run over \<open>pre\<close> followed by \<open>path\<close>
  then either returns no error and leaves \<open>d\<close> with the whole script run and its version
  recorded, which it does whenever the file is read, the transaction begins, every
  statement of the script succeeds, the insert of the version succeeds and the commit
  succeeds; or it returns an error and leaves \<open>d\<close> itself, with neither a statement of the
  script nor the version: the error names the file when the script fails and when the
  insert of the version is refused. A run that has returned an error returns the same
  error and leaves the same database whatever files follow.
\<close>

theorem RunMigrations_all_or_nothing:
  "(RunMigrations eng (with_files fs pre) dir db = (None, d)
      \<and> count_version eng d (extractVersionFromFilename path) = Inr 0 \<longrightarrow>
      RunMigrations eng (with_files fs (pre @ [path])) dir db =
        (case ReadFile fs path of
           None \<Rightarrow> (Some (Wrapf (''failed to read migration file '' @ path) (EngineError ''read failed'')), d)
         | Some content \<Rightarrow>
             if fails eng OpBegin d
             then (Some (Wrapf ''failed to begin migration transaction'' (EngineError ''begin failed'')), d)
             else if \<not> fst (exec_script eng content (schema d))
             then (Some (Wrapf (''failed to execute migration '' @ path) (EngineError ''statement failed'')), d)
             else if fails eng OpInsert (d\<lparr>schema := snd (exec_script eng content (schema d))\<rparr>)
             then (Some (Wrapf (''failed to record migration '' @ path) (EngineError ''insert failed'')), d)
             else if fails eng OpCommit (applied_state eng content (extractVersionFromFilename path) d)
             then (Some (Wrapf (''failed to commit migration '' @ path) (EngineError ''commit failed'')), d)
             else (None, applied_state eng content (extractVersionFromFilename path) d)))
   \<and> (RunMigrations eng (with_files fs pre) dir db = (None, d)
      \<and> count_version eng d (extractVersionFromFilename path) = Inr 0
      \<and> ReadFile fs path = Some content \<and> \<not> fails eng OpBegin d
      \<and> fst (exec_script eng content (schema d))
      \<and> \<not> fails eng OpInsert (d\<lparr>schema := snd (exec_script eng content (schema d))\<rparr>)
      \<and> \<not> fails eng OpCommit (applied_state eng content (extractVersionFromFilename path) d) \<longrightarrow>
      RunMigrations eng (with_files fs (pre @ [path])) dir db =
        (None, applied_state eng content (extractVersionFromFilename path) d))
   \<and> (RunMigrations eng (with_files fs pre) dir db = (Some e, d) \<longrightarrow>
        RunMigrations eng (with_files fs (pre @ rest)) dir db = (Some e, d))"
proof (intro conjI impI)
  assume "RunMigrations eng (with_files fs pre) dir db = (Some e, d)"
  then show "RunMigrations eng (with_files fs (pre @ rest)) dir db = (Some e, d)"
    by (rule RunMigrations_aborted)
next
  assume a: "RunMigrations eng (with_files fs pre) dir db = (None, d)
      \<and> count_version eng d (extractVersionFromFilename path) = Inr 0"
  show "RunMigrations eng (with_files fs (pre @ [path])) dir db =
        (case ReadFile fs path of
           None \<Rightarrow> (Some (Wrapf (''failed to read migration file '' @ path) (EngineError ''read failed'')), d)
         | Some content \<Rightarrow>
             if fails eng OpBegin d
             then (Some (Wrapf ''failed to begin migration transaction'' (EngineError ''begin failed'')), d)
             else if \<not> fst (exec_script eng content (schema d))
             then (Some (Wrapf (''failed to execute migration '' @ path) (EngineError ''statement failed'')), d)
             else if fails eng OpInsert (d\<lparr>schema := snd (exec_script eng content (schema d))\<rparr>)
             then (Some (Wrapf (''failed to record migration '' @ path) (EngineError ''insert failed'')), d)
             else if fails eng OpCommit (applied_state eng content (extractVersionFromFilename path) d)
             then (Some (Wrapf (''failed to commit migration '' @ path) (EngineError ''commit failed'')), d)
             else (None, applied_state eng content (extractVersionFromFilename path) d))"
    using a RunMigrations_next_file [of eng fs pre dir db d path]
      migrate_file_unrecorded [of eng d path fs]
    by simp
next
  assume a: "RunMigrations eng (with_files fs pre) dir db = (None, d)
      \<and> count_version eng d (extractVersionFromFilename path) = Inr 0
      \<and> ReadFile fs path = Some content \<and> \<not> fails eng OpBegin d
      \<and> fst (exec_script eng content (schema d))
      \<and> \<not> fails eng OpInsert (d\<lparr>schema := snd (exec_script eng content (schema d))\<rparr>)
      \<and> \<not> fails eng OpCommit (applied_state eng content (extractVersionFromFilename path) d)"
  have "migrate_file eng fs path d =
      (None, applied_state eng content (extractVersionFromFilename path) d)"
    using a migrate_file_unrecorded [of eng d path fs] by simp
  then show "RunMigrations eng (with_files fs (pre @ [path])) dir db =
        (None, applied_state eng content (extractVersionFromFilename path) d)"
    using a RunMigrations_next_file [of eng fs pre dir db d path] by simp
qed

lemma table_engine_healthy: "\<not> fails table_engine op db"
  by (simp add: table_engine_def)

lemma first_script_run:
  "RunMigrations table_engine (with_files failing_directory [''m/001_a.up.sql'']) ''m'' fresh_MigDB
     = (None, \<lparr>schema = ''uc'', schema_migrations = Some [''001'']\<rparr>)"
  "RunMigrations table_engine (with_files good_directory [''m/001_a.up.sql'']) ''m'' fresh_MigDB
     = (None, \<lparr>schema = ''uc'', schema_migrations = Some [''001'']\<rparr>)"
  "RunMigrations readonly_bookkeeping_engine (with_files good_directory []) ''m'' fresh_MigDB
     = (None, \<lparr>schema = [], schema_migrations = Some []\<rparr>)"
  by code_simp+

lemma scripts_unrecorded:
  "count_version table_engine \<lparr>schema = ''uc'', schema_migrations = Some [''001'']\<rparr>
     (extractVersionFromFilename ''m/002_b.up.sql'') = Inr 0"
  "count_version readonly_bookkeeping_engine \<lparr>schema = [], schema_migrations = Some []\<rparr>
     (extractVersionFromFilename ''m/001_a.up.sql'') = Inr 0"
  by code_simp+

lemma scripts_read:
  "ReadFile failing_directory ''m/002_b.up.sql'' = Some ''mu''"
  "ReadFile good_directory ''m/002_b.up.sql'' = Some ''m''"
  "ReadFile good_directory ''m/001_a.up.sql'' = Some ''uc''"
  by code_simp+

lemma scripts_executed:
  "exec_script table_engine ''mu'' ''uc'' = (False, ''ucm'')"
  "exec_script table_engine ''m'' ''uc'' = (True, ''ucm'')"
  "exec_script readonly_bookkeeping_engine ''uc'' [] = (True, ''uc'')"
  "fails readonly_bookkeeping_engine OpBegin \<lparr>schema = [], schema_migrations = Some []\<rparr> = False"
  "fails readonly_bookkeeping_engine OpInsert \<lparr>schema = ''uc'', schema_migrations = Some []\<rparr> = True"
  "applied_state table_engine ''m'' (extractVersionFromFilename ''m/002_b.up.sql'')
       \<lparr>schema = ''uc'', schema_migrations = Some [''001'']\<rparr>
     = \<lparr>schema = ''ucm'', schema_migrations = Some [''001'', ''002'']\<rparr>"
  by code_simp+

lemma directories_listed:
  "with_files failing_directory [''m/001_a.up.sql'', ''m/002_b.up.sql''] = failing_directory"
  "with_files good_directory [''m/001_a.up.sql'', ''m/002_b.up.sql''] = good_directory"
  by (simp_all add: with_files_def failing_directory_def good_directory_def directory_def)

theorem RunMigrations_all_or_nothing_witness:
  "RunMigrations table_engine (with_files failing_directory [''m/001_a.up.sql'']) ''m'' fresh_MigDB
     = (None, \<lparr>schema = ''uc'', schema_migrations = Some [''001'']\<rparr>)
   \<and> count_version table_engine \<lparr>schema = ''uc'', schema_migrations = Some [''001'']\<rparr>
       (extractVersionFromFilename ''m/002_b.up.sql'') = Inr 0
   \<and> RunMigrations table_engine failing_directory ''m'' fresh_MigDB
       = (Some (Wrapf ''failed to execute migration m/002_b.up.sql'' (EngineError ''statement failed'')),
          \<lparr>schema = ''uc'', schema_migrations = Some [''001'']\<rparr>)
   \<and> RunMigrations table_engine
         (with_files failing_directory [''m/001_a.up.sql'', ''m/002_b.up.sql'', ''m/003_c.up.sql''])
         ''m'' fresh_MigDB
       = (Some (Wrapf ''failed to execute migration m/002_b.up.sql'' (EngineError ''statement failed'')),
          \<lparr>schema = ''uc'', schema_migrations = Some [''001'']\<rparr>)
   \<and> RunMigrations table_engine good_directory ''m'' fresh_MigDB
       = (None, \<lparr>schema = ''ucm'', schema_migrations = Some [''001'', ''002'']\<rparr>)
   \<and> RunMigrations readonly_bookkeeping_engine (with_files good_directory [''m/001_a.up.sql''])
         ''m'' fresh_MigDB
       = (Some (Wrapf ''failed to record migration m/001_a.up.sql'' (EngineError ''insert failed'')),
          \<lparr>schema = [], schema_migrations = Some []\<rparr>)"
proof -
  let ?d = "\<lparr>schema = ''uc'', schema_migrations = Some [''001'']\<rparr> :: string MigDB"
  let ?e = "\<lparr>schema = [], schema_migrations = Some []\<rparr> :: string MigDB"
  have a: "RunMigrations table_engine
        (with_files failing_directory ([''m/001_a.up.sql''] @ [''m/002_b.up.sql''])) ''m'' fresh_MigDB
      = (Some (Wrapf ''failed to execute migration m/002_b.up.sql'' (EngineError ''statement failed'')), ?d)"
    using RunMigrations_all_or_nothing
      [where eng = table_engine and fs = failing_directory and pre = "[''m/001_a.up.sql'']"
        and dir = "''m''" and db = fresh_MigDB and d = ?d and path = "''m/002_b.up.sql''"]
      first_script_run(1) scripts_unrecorded(1) scripts_read(1) scripts_executed(1)
      table_engine_healthy
    by simp
  have b: "RunMigrations table_engine
        (with_files failing_directory
          (([''m/001_a.up.sql''] @ [''m/002_b.up.sql'']) @ [''m/003_c.up.sql''])) ''m'' fresh_MigDB
      = (Some (Wrapf ''failed to execute migration m/002_b.up.sql'' (EngineError ''statement failed'')), ?d)"
    using RunMigrations_all_or_nothing
      [where eng = table_engine and fs = failing_directory
        and pre = "[''m/001_a.up.sql''] @ [''m/002_b.up.sql'']"
        and dir = "''m''" and db = fresh_MigDB and d = ?d and rest = "[''m/003_c.up.sql'']"
        and e = "Wrapf ''failed to execute migration m/002_b.up.sql'' (EngineError ''statement failed'')"]
      a
    by blast
  have c: "RunMigrations table_engine
        (with_files good_directory ([''m/001_a.up.sql''] @ [''m/002_b.up.sql''])) ''m'' fresh_MigDB
      = (None, \<lparr>schema = ''ucm'', schema_migrations = Some [''001'', ''002'']\<rparr>)"
    using RunMigrations_all_or_nothing
      [where eng = table_engine and fs = good_directory and pre = "[''m/001_a.up.sql'']"
        and dir = "''m''" and db = fresh_MigDB and d = ?d and path = "''m/002_b.up.sql''"
        and content = "''m''"]
      first_script_run(2) scripts_unrecorded(1) scripts_read(2) scripts_executed(2,6)
      table_engine_healthy
    by simp
  have r: "RunMigrations readonly_bookkeeping_engine
        (with_files good_directory ([] @ [''m/001_a.up.sql''])) ''m'' fresh_MigDB
      = (Some (Wrapf ''failed to record migration m/001_a.up.sql'' (EngineError ''insert failed'')), ?e)"
    using RunMigrations_all_or_nothing
      [where eng = readonly_bookkeeping_engine and fs = good_directory and pre = "[]"
        and dir = "''m''" and db = fresh_MigDB and d = ?e and path = "''m/001_a.up.sql''"]
      first_script_run(3) scripts_unrecorded(2) scripts_read(3) scripts_executed(3,4,5)
    by simp
  show ?thesis
    using a b c r first_script_run(1) scripts_unrecorded(1)
    by (simp add: directories_listed)
qed

lemma migrate_file_continue:
  assumes "migrate_file eng fs file db = (None, db')"
  shows "\<exists>rows. schema_migrations db = Some rows
     \<and> ((extractVersionFromFilename file \<in> set rows \<and> db' = db)
        \<or> (extractVersionFromFilename file \<notin> set rows
            \<and> schema_migrations db' = Some (rows @ [extractVersionFromFilename file])))"
proof (cases "count_version eng db (extractVersionFromFilename file)")
  case (Inl err)
  then show ?thesis
    using assms by (simp add: migrate_file_def Let_def)
next
  case (Inr n)
  then obtain rows where r: "schema_migrations db = Some rows"
    "n = count_list rows (extractVersionFromFilename file)"
    by (auto simp add: count_version_def split: if_splits option.splits)
  show ?thesis
  proof (cases "n = 0")
    case True
    have "db' = applied_state eng (the (ReadFile fs file)) (extractVersionFromFilename file) db"
      using assms Inr True
      by (auto simp add: migrate_file_unrecorded split: option.splits if_splits)
    then have "schema_migrations db' = Some (rows @ [extractVersionFromFilename file])"
      by (simp add: applied_state_def recorded_def r(1))
    moreover have "extractVersionFromFilename file \<notin> set rows"
      using True r(2) by (simp add: count_list_0_iff)
    ultimately show ?thesis
      using r(1) by simp
  next
    case False
    then have "db' = db"
      using assms Inr by (simp add: migrate_file_def Let_def)
    moreover have "extractVersionFromFilename file \<in> set rows"
      using False r(2) by (simp add: count_list_0_iff)
    ultimately show ?thesis
      using r(1) by simp
  qed
qed

lemma migrate_file_continue_recorded:
  assumes "migrate_file eng fs file db = (None, db')"
  shows "schema_migrations db \<noteq> None \<and> schema_migrations db' \<noteq> None
     \<and> set (recorded db') = insert (extractVersionFromFilename file) (set (recorded db))
     \<and> (distinct (recorded db) \<longrightarrow> distinct (recorded db'))"
  using migrate_file_continue [OF assms]
  by (auto simp add: recorded_def)

lemma migrate_files_recorded:
  assumes "migrate_files eng fs files db = (None, db')"
  shows "(schema_migrations db \<noteq> None \<longrightarrow> schema_migrations db' \<noteq> None)
     \<and> set (recorded db') = set (recorded db) \<union> extractVersionFromFilename ` set files
     \<and> (distinct (recorded db) \<longrightarrow> distinct (recorded db'))"
  using assms
proof (induction files arbitrary: db)
  case Nil
  then show ?case by simp
next
  case (Cons f files)
  obtain r d where step: "migrate_file eng fs f db = (r, d)"
    by (cases "migrate_file eng fs f db")
  have r: "r = None"
    using Cons.prems step by (cases r) simp_all
  then have rest: "migrate_files eng fs files d = (None, db')"
    using Cons.prems step by simp
  note s = migrate_file_continue_recorded [OF step [unfolded r]]
  note ih = Cons.IH [OF rest]
  show ?case
    using s ih by auto
qed

lemma migrate_files_noop:
  assumes "schema_migrations db = Some rows"
    and "\<forall>f\<in>set files. extractVersionFromFilename f \<in> set rows"
  shows "snd (migrate_files eng fs files db) = db
     \<and> (\<not> fails eng OpQuery db \<longrightarrow> migrate_files eng fs files db = (None, db))"
  using assms(2)
proof (induction files)
  case Nil
  then show ?case by simp
next
  case (Cons f files)
  have m: "extractVersionFromFilename f \<in> set rows"
    using Cons.prems by simp
  then have pos: "count_list rows (extractVersionFromFilename f) > 0"
    using count_list_0_iff [of rows "extractVersionFromFilename f"] by auto
  show ?case
  proof (cases "fails eng OpQuery db")
    case True
    then show ?thesis
      by (simp add: migrate_file_def count_version_def Let_def)
  next
    case False
    then have "migrate_file eng fs f db = (None, db)"
      using pos assms(1) by (simp add: migrate_file_def count_version_def Let_def)
    then show ?thesis
      using Cons by simp
  qed
qed

lemma distinct_count_list_one: "distinct xs \<Longrightarrow> x \<in> set xs \<Longrightarrow> count_list xs x = 1"
  by (induction xs) auto

lemma funpow_fixed: "f x = x \<Longrightarrow> (f ^^ n) x = x"
  by (induction n) simp_all

lemma migrate_files_rows:
  assumes "migrate_files eng fs files db = (None, db')"
    and "distinct (map extractVersionFromFilename files)"
  shows "recorded db' =
     recorded db @ filter (\<lambda>v. v \<notin> set (recorded db)) (map extractVersionFromFilename files)"
  using assms
proof (induction files arbitrary: db)
  case Nil
  then show ?case by simp
next
  case (Cons f files)
  let ?v = "extractVersionFromFilename f"
  let ?vs = "map extractVersionFromFilename files"
  obtain r d where step: "migrate_file eng fs f db = (r, d)"
    by (cases "migrate_file eng fs f db")
  have r: "r = None"
    using Cons.prems(1) step by (cases r) simp_all
  then have rest: "migrate_files eng fs files d = (None, db')"
    using Cons.prems(1) step by simp
  have dist: "distinct ?vs" and fresh: "?v \<notin> set ?vs"
    using Cons.prems(2) by simp_all
  have ih: "recorded db' = recorded d @ filter (\<lambda>v. v \<notin> set (recorded d)) ?vs"
    using Cons.IH [OF rest dist] .
  obtain rows where rows: "schema_migrations db = Some rows"
    and alt: "(?v \<in> set rows \<and> d = db) \<or> (?v \<notin> set rows \<and> schema_migrations d = Some (rows @ [?v]))"
    using migrate_file_continue [OF step [unfolded r]] by blast
  have rdb: "recorded db = rows"
    using rows by (simp add: recorded_def)
  show ?case
  proof (cases "?v \<in> set rows")
    case True
    then have "d = db"
      using alt by blast
    then show ?thesis
      using ih True rdb by simp
  next
    case False
    then have rd: "recorded d = rows @ [?v]"
      using alt by (auto simp add: recorded_def)
    have "v \<noteq> ?v" if "v \<in> set ?vs" for v
      using fresh that by blast
    then have "(v \<notin> set (rows @ [?v])) = (v \<notin> set rows)" if "v \<in> set ?vs" for v
      using that by simp
    then have "filter (\<lambda>v. v \<notin> set (rows @ [?v])) ?vs = filter (\<lambda>v. v \<notin> set rows) ?vs"
      by (intro filter_cong refl)
    then show ?thesis
      using ih False rdb rd by simp
  qed
qed

lemma migrate_files_table_kept:
  assumes "schema_migrations db \<noteq> None"
  shows "schema_migrations (snd (migrate_files eng fs files db)) \<noteq> None"
  using assms
proof (induction files arbitrary: db)
  case Nil
  then show ?case by simp
next
  case (Cons f files)
  obtain r d where step: "migrate_file eng fs f db = (r, d)"
    by (cases "migrate_file eng fs f db")
  show ?case
  proof (cases r)
    case None
    then have "schema_migrations d \<noteq> None"
      using migrate_file_continue_recorded [of eng fs f db d] step by simp
    then show ?thesis
      using Cons.IH [of d] step None by simp
  next
    case (Some e)
    then have "d = db"
      using step migrate_file_error_unchanged by blast
    then show ?thesis
      using step Some Cons.prems by simp
  qed
qed

lemma migrate_files_fixed:
  assumes "migrate_files eng fs files db = (r, db')" and "schema_migrations db \<noteq> None"
  shows "snd (migrate_files eng fs files db') = db'"
proof (cases r)
  case None
  note rec = migrate_files_recorded [OF assms(1) [unfolded None]]
  obtain rows where rows: "schema_migrations db' = Some rows"
    using rec assms(2) by auto
  have "\<forall>f\<in>set files. extractVersionFromFilename f \<in> set rows"
    using rec rows by (simp add: recorded_def)
  then show ?thesis
    using migrate_files_noop [OF rows, of files eng fs] by simp
next
  case (Some e)
  obtain pre g post where split: "files = pre @ g # post"
    and before: "migrate_files eng fs pre db = (None, db')"
    and failing: "migrate_file eng fs g db' = (Some e, db')"
    using migrate_files_abort [OF assms(1) [unfolded Some]] by blast
  note rec = migrate_files_recorded [OF before]
  obtain rows where rows: "schema_migrations db' = Some rows"
    using rec assms(2) by auto
  have "\<forall>f\<in>set pre. extractVersionFromFilename f \<in> set rows"
    using rec rows by (simp add: recorded_def)
  then have same: "snd (migrate_files eng fs pre db') = db'"
    using migrate_files_noop [OF rows, of pre eng fs] by simp
  obtain r2 where again: "migrate_files eng fs pre db' = (r2, db')"
    using same by (cases "migrate_files eng fs pre db'") simp
  have tail: "migrate_files eng fs (g # post) db' = (Some e, db')"
    using failing by simp
  show ?thesis
    unfolding split migrate_files_append again
    using tail by (cases r2) simp_all
qed

lemma RunMigrations_fixed:
  "snd (RunMigrations eng fs dir (snd (RunMigrations eng fs dir db))) = snd (RunMigrations eng fs dir db)"
proof (cases "fails eng OpCreateTable db")
  case True
  then show ?thesis
    by (simp add: RunMigrations_def)
next
  case False
  let ?db0 = "db\<lparr>schema_migrations := Some (case schema_migrations db of None \<Rightarrow> [] | Some rows \<Rightarrow> rows)\<rparr>"
  show ?thesis
  proof (cases "Glob fs (Join dir ''*.up.sql'')")
    case None
    then have first: "RunMigrations eng fs dir db =
        (Some (Wrapf ''failed to find migration files'' (EngineError ''syntax error in pattern'')), ?db0)"
      using False by (simp add: RunMigrations_def Let_def)
    have "snd (RunMigrations eng fs dir ?db0) = ?db0"
      using None by (simp add: RunMigrations_def Let_def)
    then show ?thesis
      by (simp add: first)
  next
    case (Some files)
    obtain r1 db1 where run: "migrate_files eng fs files ?db0 = (r1, db1)"
      by (cases "migrate_files eng fs files ?db0")
    have first: "RunMigrations eng fs dir db = (r1, db1)"
      using False Some run by (simp add: RunMigrations_def Let_def)
    have kept: "schema_migrations db1 \<noteq> None"
      using migrate_files_table_kept [of ?db0 eng fs files] run by simp
    then have norm: "db1\<lparr>schema_migrations :=
        Some (case schema_migrations db1 of None \<Rightarrow> [] | Some rows \<Rightarrow> rows)\<rparr> = db1"
      by (cases "schema_migrations db1") simp_all
    have "snd (migrate_files eng fs files db1) = db1"
      using migrate_files_fixed [OF run] by simp
    then have "snd (RunMigrations eng fs dir db1) = db1"
      using Some by (simp add: RunMigrations_def Let_def norm)
    then show ?thesis
      by (simp add: first)
  qed
qed

lemma RunMigrations_rows:
  assumes "RunMigrations eng fs dir db = (None, db1)"
  shows "\<exists>files. Glob fs (Join dir ''*.up.sql'') = Some files
          \<and> schema_migrations db1 = Some (recorded db1)
          \<and> set (recorded db1) = set (recorded db) \<union> extractVersionFromFilename ` set files
          \<and> (distinct (recorded db) \<longrightarrow>
                distinct (recorded db1)
                \<and> (\<forall>f\<in>set files. count_list (recorded db1) (extractVersionFromFilename f) = 1))
          \<and> (distinct (map extractVersionFromFilename files) \<longrightarrow>
                recorded db1 = recorded db @
                  filter (\<lambda>v. v \<notin> set (recorded db)) (map extractVersionFromFilename files))
          \<and> (\<not> fails eng OpCreateTable db1 \<and> \<not> fails eng OpQuery db1 \<longrightarrow>
                RunMigrations eng fs dir db1 = (None, db1))"
proof -
  let ?db0 = "db\<lparr>schema_migrations := Some (recorded db)\<rparr>"
  have ok: "\<not> fails eng OpCreateTable db"
    using assms by (auto simp add: RunMigrations_def split: if_splits)
  then obtain files where g: "Glob fs (Join dir ''*.up.sql'') = Some files"
    and run: "migrate_files eng fs files ?db0 = (None, db1)"
    using assms
    by (auto simp add: RunMigrations_def recorded_def Let_def split: if_splits option.splits)
  note rec = migrate_files_recorded [OF run]
  have r0: "recorded ?db0 = recorded db"
    by (simp add: recorded_def)
  have some: "schema_migrations db1 = Some (recorded db1)"
    using rec by (auto simp add: recorded_def)
  have cover: "set (recorded db1) = set (recorded db) \<union> extractVersionFromFilename ` set files"
    using rec r0 by simp
  have dist: "distinct (recorded db1)" if "distinct (recorded db)"
    using rec r0 that by simp
  have once: "count_list (recorded db1) (extractVersionFromFilename f) = 1"
    if "distinct (recorded db)" "f \<in> set files" for f
    using dist [OF that(1)] cover that(2) by (intro distinct_count_list_one) simp_all
  have rows: "recorded db1 = recorded db @
      filter (\<lambda>v. v \<notin> set (recorded db)) (map extractVersionFromFilename files)"
    if "distinct (map extractVersionFromFilename files)"
    using migrate_files_rows [OF run that] r0 by simp
  have all: "\<forall>f\<in>set files. extractVersionFromFilename f \<in> set (recorded db1)"
    using cover by simp
  note noop = migrate_files_noop [OF some all, of eng fs]
  have same: "db1\<lparr>schema_migrations := Some (case schema_migrations db1 of None \<Rightarrow> [] | Some rows \<Rightarrow> rows)\<rparr> = db1"
    using some by (simp add: recorded_def split: option.splits)
  have healthy: "RunMigrations eng fs dir db1 = (None, db1)"
    if "\<not> fails eng OpCreateTable db1" "\<not> fails eng OpQuery db1"
    using noop g that by (simp add: RunMigrations_def Let_def same)
  show ?thesis
    using healthy g some cover dist once rows by blast
qed

text \<open>
  C4. A run over the directory, whatever it returned, leaves a database that a further
  run over the same directory leaves as it is, however often it is repeated. A file
  \<open>path\<close> whose version is recorded is skipped: the run over the files \<open>pre\<close> followed
  by it leaves what the run over \<open>pre\<close> left. After a run that returned no error, a
  further run returns no error when the engine answers its two statements, and the
  bookkeeping table holds the versions it held before and the versions of the files
  found; when its rows were distinct before (the column is the primary key), they are
  distinct after and each file's version has exactly one row; when the versions of the
  files are distinct the rows added are the versions of the files not recorded before,
  in the order of the files, so starting from an empty table there is one row for each
  file and no other.
\<close>

theorem RunMigrations_idempotent:
  assumes "RunMigrations eng fs dir db = (r1, db1)"
  shows "snd (RunMigrations eng fs dir db1) = db1
     \<and> ((\<lambda>d. snd (RunMigrations eng fs dir d)) ^^ n) db1 = db1
     \<and> (RunMigrations eng (with_files fs pre) dir db = (None, d)
          \<and> count_version eng d (extractVersionFromFilename path) = Inr k \<and> 0 < k \<longrightarrow>
          RunMigrations eng (with_files fs (pre @ [path])) dir db = (None, d))
     \<and> (r1 = None \<longrightarrow>
          (\<not> fails eng OpCreateTable db1 \<and> \<not> fails eng OpQuery db1 \<longrightarrow>
             RunMigrations eng fs dir db1 = (None, db1))
          \<and> (\<exists>files. Glob fs (Join dir ''*.up.sql'') = Some files
             \<and> schema_migrations db1 = Some (recorded db1)
             \<and> set (recorded db1) = set (recorded db) \<union> extractVersionFromFilename ` set files
             \<and> (distinct (recorded db) \<longrightarrow>
                  distinct (recorded db1)
                  \<and> (\<forall>f\<in>set files. count_list (recorded db1) (extractVersionFromFilename f) = 1))
             \<and> (distinct (map extractVersionFromFilename files) \<longrightarrow>
                  recorded db1 = recorded db @
                    filter (\<lambda>v. v \<notin> set (recorded db)) (map extractVersionFromFilename files))
             \<and> (distinct (map extractVersionFromFilename files) \<and> recorded db = [] \<longrightarrow>
                  recorded db1 = map extractVersionFromFilename files)))"
proof -
  have again: "snd (RunMigrations eng fs dir db1) = db1"
    using RunMigrations_fixed [of eng fs dir db] assms by simp
  have many: "((\<lambda>d. snd (RunMigrations eng fs dir d)) ^^ n) db1 = db1"
    by (rule funpow_fixed) (rule again)
  have skip: "RunMigrations eng (with_files fs (pre @ [path])) dir db = (None, d)"
    if "RunMigrations eng (with_files fs pre) dir db = (None, d)
          \<and> count_version eng d (extractVersionFromFilename path) = Inr k \<and> 0 < k"
    using that RunMigrations_next_file [of eng fs pre dir db d path]
      migrate_file_recorded_skip [of eng d path k fs]
    by simp
  have rows: "(\<not> fails eng OpCreateTable db1 \<and> \<not> fails eng OpQuery db1 \<longrightarrow>
             RunMigrations eng fs dir db1 = (None, db1))
          \<and> (\<exists>files. Glob fs (Join dir ''*.up.sql'') = Some files
             \<and> schema_migrations db1 = Some (recorded db1)
             \<and> set (recorded db1) = set (recorded db) \<union> extractVersionFromFilename ` set files
             \<and> (distinct (recorded db) \<longrightarrow>
                  distinct (recorded db1)
                  \<and> (\<forall>f\<in>set files. count_list (recorded db1) (extractVersionFromFilename f) = 1))
             \<and> (distinct (map extractVersionFromFilename files) \<longrightarrow>
                  recorded db1 = recorded db @
                    filter (\<lambda>v. v \<notin> set (recorded db)) (map extractVersionFromFilename files))
             \<and> (distinct (map extractVersionFromFilename files) \<and> recorded db = [] \<longrightarrow>
                  recorded db1 = map extractVersionFromFilename files))"
    if none: "r1 = None"
  proof -
    obtain files where f: "Glob fs (Join dir ''*.up.sql'') = Some files"
      "schema_migrations db1 = Some (recorded db1)"
      "set (recorded db1) = set (recorded db) \<union> extractVersionFromFilename ` set files"
      "distinct (recorded db) \<longrightarrow>
          distinct (recorded db1)
          \<and> (\<forall>f\<in>set files. count_list (recorded db1) (extractVersionFromFilename f) = 1)"
      "distinct (map extractVersionFromFilename files) \<longrightarrow>
          recorded db1 = recorded db @
            filter (\<lambda>v. v \<notin> set (recorded db)) (map extractVersionFromFilename files)"
      "\<not> fails eng OpCreateTable db1 \<and> \<not> fails eng OpQuery db1 \<longrightarrow>
          RunMigrations eng fs dir db1 = (None, db1)"
      using RunMigrations_rows [OF assms [unfolded none]] by blast
    have "recorded db1 = map extractVersionFromFilename files"
      if "distinct (map extractVersionFromFilename files) \<and> recorded db = []"
      using f(5) that by simp
    then show ?thesis
      using f by blast
  qed
  show ?thesis
    using again many skip rows by blast
qed

lemma good_directory_run:
  "RunMigrations table_engine good_directory ''m'' fresh_MigDB =
     (None, \<lparr>schema = ''ucm'', schema_migrations = Some [''001'', ''002'']\<rparr>)"
  by code_simp

lemma failing_directory_run:
  "RunMigrations table_engine failing_directory ''m'' fresh_MigDB =
     (Some (Wrapf ''failed to execute migration m/002_b.up.sql'' (EngineError ''statement failed'')),
      \<lparr>schema = ''uc'', schema_migrations = Some [''001'']\<rparr>)"
  by code_simp

lemma good_directory_files:
  "Glob good_directory (Join ''m'' ''*.up.sql'') = Some [''m/001_a.up.sql'', ''m/002_b.up.sql'']"
  "map extractVersionFromFilename [''m/001_a.up.sql'', ''m/002_b.up.sql''] = [''001'', ''002'']"
  "recorded fresh_MigDB = []"
  by code_simp+

lemma rerun_prefix:
  "RunMigrations table_engine (with_files good_directory [''m/001_a.up.sql'']) ''m''
       \<lparr>schema = ''ucm'', schema_migrations = Some [''001'', ''002'']\<rparr>
     = (None, \<lparr>schema = ''ucm'', schema_migrations = Some [''001'', ''002'']\<rparr>)"
  "count_version table_engine \<lparr>schema = ''ucm'', schema_migrations = Some [''001'', ''002'']\<rparr>
       (extractVersionFromFilename ''m/002_b.up.sql'') = Inr 1"
  by code_simp+

theorem RunMigrations_idempotent_witness:
  "RunMigrations table_engine good_directory ''m'' fresh_MigDB =
     (None, \<lparr>schema = ''ucm'', schema_migrations = Some [''001'', ''002'']\<rparr>)
   \<and> RunMigrations table_engine good_directory ''m''
       \<lparr>schema = ''ucm'', schema_migrations = Some [''001'', ''002'']\<rparr> =
     (None, \<lparr>schema = ''ucm'', schema_migrations = Some [''001'', ''002'']\<rparr>)
   \<and> ((\<lambda>d. snd (RunMigrations table_engine good_directory ''m'' d)) ^^ 3)
       \<lparr>schema = ''ucm'', schema_migrations = Some [''001'', ''002'']\<rparr>
     = \<lparr>schema = ''ucm'', schema_migrations = Some [''001'', ''002'']\<rparr>
   \<and> Glob good_directory (Join ''m'' ''*.up.sql'') = Some [''m/001_a.up.sql'', ''m/002_b.up.sql'']
   \<and> recorded \<lparr>schema = ''ucm'', schema_migrations = Some [''001'', ''002'']\<rparr>
       = map extractVersionFromFilename [''m/001_a.up.sql'', ''m/002_b.up.sql'']
   \<and> RunMigrations table_engine failing_directory ''m'' fresh_MigDB =
       (Some (Wrapf ''failed to execute migration m/002_b.up.sql'' (EngineError ''statement failed'')),
        \<lparr>schema = ''uc'', schema_migrations = Some [''001'']\<rparr>)
   \<and> snd (RunMigrations table_engine failing_directory ''m''
         \<lparr>schema = ''uc'', schema_migrations = Some [''001'']\<rparr>)
       = \<lparr>schema = ''uc'', schema_migrations = Some [''001'']\<rparr>"
proof -
  let ?d = "\<lparr>schema = ''ucm'', schema_migrations = Some [''001'', ''002'']\<rparr> :: string MigDB"
  note t = RunMigrations_idempotent [OF good_directory_run, where n = 3
      and pre = "[''m/001_a.up.sql'']" and d = ?d and path = "''m/002_b.up.sql''" and k = 1]
  have a: "RunMigrations table_engine good_directory ''m'' ?d = (None, ?d)"
    using t table_engine_healthy by blast
  have b: "((\<lambda>d. snd (RunMigrations table_engine good_directory ''m'' d)) ^^ 3) ?d = ?d"
    using t by blast
  have c: "recorded ?d = map extractVersionFromFilename [''m/001_a.up.sql'', ''m/002_b.up.sql'']"
    using t good_directory_files by auto
  have f: "snd (RunMigrations table_engine failing_directory ''m''
         \<lparr>schema = ''uc'', schema_migrations = Some [''001'']\<rparr>)
       = \<lparr>schema = ''uc'', schema_migrations = Some [''001'']\<rparr>"
    using RunMigrations_idempotent [OF failing_directory_run, where n = 1
      and pre = "[]" and d = fresh_MigDB and path = "[]" and k = 1]
    by blast
  show ?thesis
    using a b c f good_directory_run failing_directory_run good_directory_files(1) by blast
qed
end
